theory Spec2Isabelle
  imports Complex_Main
begin

section \<open>Numbers and randomness\<close>

text \<open>
  The simulation is written in TypeScript over JavaScript numbers. The model reads them
  as real numbers: every formula keeps the shape it has in the source, and rounding of
  IEEE doubles is left out. \<open>Math.random()\<close> is the only source of nondeterminism; it is
  modelled as a stream of draws that every function takes and hands back, one draw
  consumed per call, in the order in which the source evaluates its calls.
\<close>

type_synonym rng = "nat \<Rightarrow> real"

definition Math_random :: "rng \<Rightarrow> real \<times> rng" where
  "Math_random g = (g 0, (\<lambda>n. g (Suc n)))"

text \<open>\<open>Math.random()\<close> returns a number in \<open>[0, 1)\<close>.\<close>

definition valid_rng :: "rng \<Rightarrow> bool" where
  "valid_rng g = (\<forall>n. 0 \<le> g n \<and> g n < 1)"

text \<open>\<open>const random = (min, max) => Math.random() * (max - min) + min\<close>\<close>

definition random :: "real \<Rightarrow> real \<Rightarrow> rng \<Rightarrow> real \<times> rng" where
  "random mn mx g = (case Math_random g of (r, g') \<Rightarrow> (r * (mx - mn) + mn, g'))"

text \<open>
  JavaScript's \<open>a || b\<close> on numbers: \<open>b\<close> when \<open>a\<close> is falsy, which for a real number
  means zero.
\<close>

definition js_or :: "real \<Rightarrow> real \<Rightarrow> real" where
  "js_or a b = (if a = 0 then b else a)"

text \<open>
  JavaScript's \<open>a / b\<close> where the divisor is computed: with a zero divisor the result is
  \<open>NaN\<close> or an infinity, which is no real number, so the quotient is \<open>None\<close> then.
  (Divisions by a non-zero constant are written with \<open>/\<close>.)
\<close>

definition js_div :: "real \<Rightarrow> real \<Rightarrow> real option" where
  "js_div a b = (if b = 0 then None else Some (a / b))"

section \<open>Data model\<close>

text \<open>The \<open>Particle\<close> interface of \<open>types.ts\<close>; a shape offset \<open>{x, y}\<close> is a pair.\<close>

record particle =
  x :: real
  y :: real
  radius :: real
  opacity :: real
  vx :: real
  vy :: real
  wobble :: real
  wobbleSpeed :: real
  swayAmplitude :: real
  shapeOffsets :: "(real \<times> real) list"
  shapeSeed :: real

text \<open>
  The component's props that the simulation reads (the closures of \<open>Snowfall\<close> capture
  them), and the three parallax layers of \<open>particlesRef\<close> and \<open>webglStateRef\<close>.
\<close>

record props =
  density :: real
  speed :: real
  wind :: real
  minRadius :: real
  maxRadius :: real
  roughness :: real
  globalOpacity :: real
  useWebGL :: bool

record 'a layers =
  back_layer :: 'a
  mid_layer :: 'a
  front_layer :: 'a

section \<open>Shape generation (CPU side)\<close>

text \<open>
  \<open>createIrregularShape(radius, rough)\<close>: the body of the \<open>for\<close> loop is \<open>shapeVertex\<close>,
  the loop itself is \<open>shapeLoop\<close>, whose first argument counts the iterations that remain
  and whose second is the loop index \<open>i\<close>.
\<close>

definition shapeVertex :: "nat \<Rightarrow> int \<Rightarrow> real \<Rightarrow> real \<Rightarrow> real \<Rightarrow> real \<times> real" where
  "shapeVertex i points rad rough r =
     (let angle = (real i / real_of_int points) * pi * 2;
          variance = 1 + (r - 0.5) * rough
      in (cos angle * rad * variance, sin angle * rad * variance))"

fun shapeLoop :: "nat \<Rightarrow> nat \<Rightarrow> int \<Rightarrow> real \<Rightarrow> real \<Rightarrow> rng \<Rightarrow> (real \<times> real) list \<times> rng" where
  "shapeLoop 0 i points rad rough g = ([], g)"
| "shapeLoop (Suc k) i points rad rough g =
     (case Math_random g of (r, g1) \<Rightarrow>
        (case shapeLoop k (Suc i) points rad rough g1 of (rest, g2) \<Rightarrow>
           (shapeVertex i points rad rough r # rest, g2)))"

definition createIrregularShape :: "real \<Rightarrow> real \<Rightarrow> rng \<Rightarrow> (real \<times> real) list \<times> rng" where
  "createIrregularShape rad rough g =
     (case Math_random g of (r, g1) \<Rightarrow>
        (let points = 5 + \<lfloor>r * 4\<rfloor> in shapeLoop (nat points) 0 points rad rough g1))"

section \<open>Particle generation\<close>

text \<open>
  \<open>makeParticle\<close> is the body of the loop of \<open>generateParticles\<close>; the draws are taken in
  the source's evaluation order (radius, opacity noise, speed variance, then the fields
  of the object literal from top to bottom). \<open>sizeFactor\<close> is the local constant of
  that name, \<open>(radius - rMin) / (rMax - rMin || 1)\<close>, as a function of what it reads.
  Where that quotient has no value the opacity is \<open>NaN\<close> in the source (\<open>Math.min\<close> and
  \<open>Math.max\<close> pass it on): the particle is created all the same, and the model leaves its
  opacity unspecified.
\<close>

definition sizeFactor :: "real \<Rightarrow> real \<Rightarrow> real \<Rightarrow> real option" where
  "sizeFactor rad rMin rMax = js_div (rad - rMin) (js_or (rMax - rMin) 1)"

definition makeParticle ::
  "props \<Rightarrow> real \<Rightarrow> real \<Rightarrow> real \<Rightarrow> real \<Rightarrow> real \<Rightarrow> rng \<Rightarrow> particle \<times> rng" where
  "makeParticle P width height rMin rMax sMult g0 =
     (case random rMin rMax g0 of (rad, g1) \<Rightarrow>
      case Math_random g1 of (r2, g2) \<Rightarrow>
      case random 0.85 1.15 g2 of (speedVariance, g3) \<Rightarrow>
      case Math_random g3 of (rx, g4) \<Rightarrow>
      case Math_random g4 of (ry, g5) \<Rightarrow>
      case random (- 0.1) 0.1 g5 of (rvx, g6) \<Rightarrow>
      case Math_random g6 of (rw, g7) \<Rightarrow>
      case random 0.005 0.03 g7 of (ws, g8) \<Rightarrow>
      case random 0.3 0.8 g8 of (sa, g9) \<Rightarrow>
      case createIrregularShape rad (roughness P) g9 of (offs, g10) \<Rightarrow>
      case Math_random g10 of (rs, g11) \<Rightarrow>
       (let opacity1 =
              (case sizeFactor rad rMin rMax of
                 Some sf \<Rightarrow> max 0.1 (min 1.0 (0.1 + (sf * 0.7) + (r2 * 0.6 - 0.3)))
               | None \<Rightarrow> undefined);
            baseSpeed = (rad / 2.5) * sMult;
            sizeScale = max 0.5 (rad / 2.5)
        in (\<lparr>x = rx * width, y = ry * height, radius = rad, opacity = opacity1,
             vx = rvx * sizeScale, vy = baseSpeed * speedVariance,
             wobble = rw * pi * 2, wobbleSpeed = ws, swayAmplitude = sa * sizeScale,
             shapeOffsets = offs, shapeSeed = rs * 1000\<rparr>, g11)))"

fun genLoop ::
  "nat \<Rightarrow> props \<Rightarrow> real \<Rightarrow> real \<Rightarrow> real \<Rightarrow> real \<Rightarrow> real \<Rightarrow> rng \<Rightarrow> particle list \<times> rng" where
  "genLoop 0 P width height rMin rMax sMult g = ([], g)"
| "genLoop (Suc k) P width height rMin rMax sMult g =
     (case makeParticle P width height rMin rMax sMult g of (p, g1) \<Rightarrow>
        (case genLoop k P width height rMin rMax sMult g1 of (ps, g2) \<Rightarrow> (p # ps, g2)))"

text \<open>
  \<open>for (let i = 0; i < count; i++)\<close> with an integer \<open>count\<close> (every caller passes
  the result of \<open>Math.floor\<close> or \<open>Math.max\<close> of one): no iteration when it is negative.
\<close>

definition generateParticles ::
  "props \<Rightarrow> real \<Rightarrow> real \<Rightarrow> int \<Rightarrow> real \<Rightarrow> real \<Rightarrow> real \<Rightarrow> rng \<Rightarrow> particle list \<times> rng" where
  "generateParticles P width height count rMin rMax sMult g =
     genLoop (nat count) P width height rMin rMax sMult g"

definition initParticles :: "props \<Rightarrow> real \<Rightarrow> real \<Rightarrow> rng \<Rightarrow> particle list layers \<times> rng" where
  "initParticles P width height g0 =
     (case generateParticles P width height \<lfloor>density P * 0.8\<rfloor>
             (minRadius P * 0.5) (maxRadius P * 0.6) 0.6 g0 of (backParticles, g1) \<Rightarrow>
      case generateParticles P width height \<lfloor>density P * 0.5\<rfloor>
             (minRadius P) (maxRadius P) 1.0 g1 of (midParticles, g2) \<Rightarrow>
      case generateParticles P width height (max 5 \<lfloor>density P * 0.1\<rfloor>)
             (max (maxRadius P) 2) (maxRadius P * 1.8) 1.4 g2 of (frontParticles, g3) \<Rightarrow>
      case generateParticles P width height (max 2 \<lfloor>density P * 0.004\<rfloor>)
             (maxRadius P * 3.5) (maxRadius P * 5.5) 2.0 g3 of (cameraParticles, g4) \<Rightarrow>
        (\<lparr>back_layer = backParticles, mid_layer = midParticles,
          front_layer = frontParticles @ cameraParticles\<rparr>, g4))"

section \<open>Advancing particles\<close>

text \<open>
  \<open>updateParticle\<close> is the callback that \<open>updateParticles\<close> passes to \<open>forEach\<close>; the
  intermediate particles are the states of \<open>p\<close> after each assignment of the source.
  \<open>primarySway\<close> and \<open>secondarySway\<close> are the local constants of those names, computed
  from the particle whose wobble has just been advanced.
\<close>

definition primarySway :: "particle \<Rightarrow> real" where
  "primarySway p = sin (wobble p) * swayAmplitude p"

definition secondarySway :: "particle \<Rightarrow> real" where
  "secondarySway p = cos (wobble p * 1.8 + y p * 0.01) * (swayAmplitude p * 0.2)"

definition updateParticle ::
  "props \<Rightarrow> real \<Rightarrow> real \<Rightarrow> real \<Rightarrow> real \<Rightarrow> particle \<Rightarrow> rng \<Rightarrow> particle \<times> rng" where
  "updateParticle P width height wMult currentWind p g =
     (let p1 = p\<lparr>wobble := wobble p + wobbleSpeed p\<rparr>;
          p2 = p1\<lparr>x := x p1 + ((currentWind * wMult) + vx p1 + primarySway p1 + secondarySway p1)\<rparr>;
          p3 = p2\<lparr>y := y p2 + speed P * vy p2\<rparr>;
          (p4, g') = (if y p3 > height + radius p3
                      then (case Math_random g of (r, g1) \<Rightarrow>
                              ((p3\<lparr>y := - radius p3\<rparr>)\<lparr>x := r * width\<rparr>, g1))
                      else (p3, g));
          p5 = (if x p4 > width + radius p4 then p4\<lparr>x := - radius p4\<rparr>
                else if x p4 < - radius p4 then p4\<lparr>x := width + radius p4\<rparr>
                else p4)
      in (p5, g'))"

fun updateParticles ::
  "props \<Rightarrow> particle list \<Rightarrow> real \<Rightarrow> real \<Rightarrow> real \<Rightarrow> real \<Rightarrow> rng \<Rightarrow> particle list \<times> rng" where
  "updateParticles P [] width height wMult currentWind g = ([], g)"
| "updateParticles P (p # ps) width height wMult currentWind g =
     (case updateParticle P width height wMult currentWind p g of (p', g1) \<Rightarrow>
        (case updateParticles P ps width height wMult currentWind g1 of (ps', g2) \<Rightarrow>
           (p' # ps', g2)))"

section \<open>Wind model\<close>

text \<open>
  \<open>windStateRef\<close> and \<open>getDynamicWind(baseWind)\<close>. The function mutates the state and
  may draw random numbers; the model returns the wind, the new state and the rest of the
  stream. \<open>startGust\<close> is the block guarded by \<open>if (state.gustTime <= 0)\<close>;
  \<open>gustFactor\<close> is the source's local constant of that name, as a function of the state
  after that block.
\<close>

record windState =
  time :: real
  gustTime :: real
  gustStrength :: real
  gustDirection :: real

definition gustFactor :: "windState \<Rightarrow> real" where
  "gustFactor st =
     (if gustTime st > 0
      then sin ((gustTime st / 3) * pi) * gustStrength st * gustDirection st
      else 0)"

definition startGust :: "windState \<Rightarrow> rng \<Rightarrow> windState \<times> rng" where
  "startGust st g =
     (if gustTime st \<le> 0
      then (case Math_random g of (r0, g1) \<Rightarrow>
              if r0 < 0.0005
              then (case Math_random g1 of (r1, g2) \<Rightarrow>
                    case Math_random g2 of (r2, g3) \<Rightarrow>
                    case Math_random g3 of (r3, g4) \<Rightarrow>
                      (st\<lparr>gustStrength := 0.5 + r1 * 1.5,
                          gustDirection := (if r2 > 0.5 then 1 else - 1),
                          gustTime := 2 + r3 * 3\<rparr>, g4))
              else (st, g1))
      else (st, g))"

definition getDynamicWind :: "real \<Rightarrow> windState \<Rightarrow> rng \<Rightarrow> real \<times> windState \<times> rng" where
  "getDynamicWind baseWind st0 g =
     (let st1 = st0\<lparr>time := time st0 + 0.016\<rparr>;
          slowWave = sin (time st1 * 0.05) * 0.7;
          mediumWave = sin (time st1 * 0.15) * 0.3;
          quickWave = sin (time st1 * 0.8) * 0.1;
          st2 = st1\<lparr>gustTime := gustTime st1 - 0.016\<rparr>
      in (case startGust st2 g of (st3, g') \<Rightarrow>
            (let dynamicMultiplier = 1 + slowWave + mediumWave + quickWave + gustFactor st3
             in (baseWind * dynamicMultiplier, st3, g'))))"

text \<open>
  The envelope as the specification words it: \<open>sin(\<pi> \<sqdot> remaining/duration) \<sqdot> strength \<sqdot>
  direction\<close>, with the duration that was drawn when the gust started.
\<close>

definition spec_gustContribution :: "real \<Rightarrow> real \<Rightarrow> real \<Rightarrow> real \<Rightarrow> real" where
  "spec_gustContribution remaining duration strength direction =
     sin (pi * (remaining / duration)) * strength * direction"

section \<open>Shape generation (GPU side)\<close>

text \<open>
  The fragment shader's \<open>hash\<close>, the vertex count computed in \<open>main\<close> and \<open>getVertex\<close>.
  GLSL floats are read as reals; \<open>int(v)\<close> drops the fractional part (towards zero).
\<close>

definition fract :: "real \<Rightarrow> real" where
  "fract v = v - of_int \<lfloor>v\<rfloor>"

definition hash :: "real \<Rightarrow> real" where
  "hash n = fract (sin (n * 12.9898) * 43758.5453123)"

definition glsl_int :: "real \<Rightarrow> int" where
  "glsl_int v = (if 0 \<le> v then \<lfloor>v\<rfloor> else \<lceil>v\<rceil>)"

definition numPoints :: "real \<Rightarrow> int" where
  "numPoints v_seed = 5 + glsl_int (hash (v_seed * 3.7) * 4.0)"

definition getVertex :: "int \<Rightarrow> int \<Rightarrow> real \<Rightarrow> real \<Rightarrow> real \<times> real" where
  "getVertex i n seed u_roughness =
     (let fi = real_of_int i;
          fn = real_of_int n;
          angle = (fi / fn) * 6.28318530718;
          randomVal = hash (seed + fi * 7.31);
          variance = 1.0 + (randomVal - 0.5) * u_roughness
      in (cos angle * 0.38 * variance, sin angle * 0.38 * variance))"

text \<open>
  The variance formula and the vertex count as the specification words them, as functions
  of the draw \<open>r\<close>: \<open>1 + (r - 0.5) * roughness\<close> and \<open>5 + floor(r * 4)\<close>.
\<close>

definition spec_variance :: "real \<Rightarrow> real \<Rightarrow> real" where
  "spec_variance r rough = 1 + (r - 0.5) * rough"

definition spec_vertexCount :: "real \<Rightarrow> int" where
  "spec_vertexCount r = 5 + \<lfloor>r * 4\<rfloor>"

section \<open>Rendering: what each backend computes per particle\<close>

text \<open>
  Of \<open>WebGLState\<close> the renderer reads only \<open>isMobile\<close> besides the GL handles. Whether
  a WebGL context, its program and its buffers can be created, whether a 2D context can be
  obtained, and what \<open>detectMobile()\<close> answers are facts of the host.
\<close>

record WebGLState =
  isMobile :: bool

record host =
  glAvailable :: bool
  context2d :: bool
  mobile :: bool

definition initWebGL :: "host \<Rightarrow> WebGLState option" where
  "initWebGL H = (if glAvailable H then Some \<lparr>isMobile = mobile H\<rparr> else None)"

text \<open>
  A draw call is recorded by the alpha value it gives each particle: the \<open>opacities\<close>
  buffer of \<open>renderWebGL\<close>, the \<open>globalAlpha\<close> of \<open>drawParticlesCanvas\<close>.
  \<open>renderWebGL\<close> returns before drawing when there is no particle.
\<close>

datatype draw = RenderWebGL "real list" | DrawCanvas "real list" | NoDraw

definition opacityBoost :: "WebGLState \<Rightarrow> particle \<Rightarrow> real" where
  "opacityBoost st p =
     (if isMobile st
      then (if radius p < 1.0 then 1.5 else (if radius p < 1.5 then 1.3 else 1.1))
      else (if radius p < 1.0 then 2.2 else (if radius p < 1.5 then 1.8 else 1.4)))"

definition renderWebGL :: "WebGLState \<Rightarrow> particle list \<Rightarrow> real \<Rightarrow> real \<Rightarrow> draw" where
  "renderWebGL st ps gOpacity layerOpacity =
     (if ps = [] then NoDraw
      else RenderWebGL
             (map (\<lambda>p. min 1.0 (opacity p * layerOpacity * gOpacity * opacityBoost st p)) ps))"

definition drawParticlesCanvas :: "particle list \<Rightarrow> real \<Rightarrow> real \<Rightarrow> draw" where
  "drawParticlesCanvas ps gOpacity layerOpacity =
     DrawCanvas (map (\<lambda>p. max 0 (min 1 (opacity p * layerOpacity * gOpacity))) ps)"

section \<open>The component instance: resize and frame loop\<close>

text \<open>
  The refs of one mounted \<open>Snowfall\<close>. \<open>containerRef\<close> holds the container's current
  \<open>clientWidth\<close> and \<open>clientHeight\<close>, a canvas ref the canvas's \<open>width\<close> and \<open>height\<close>
  attributes; \<open>None\<close> is a ref whose \<open>current\<close> is null. \<open>resizeTimeoutRef\<close> tells
  whether the 300 ms timer is pending; \<open>console\<close> collects the lines of \<open>console.log\<close>.
\<close>

record snowfall =
  containerRef :: "(real \<times> real) option"
  canvasRefs :: "(real \<times> real) option layers"
  webglStateRef :: "WebGLState option layers"
  particlesRef :: "particle list layers"
  windStateRef :: windState
  stableDimensionsRef :: "real \<times> real"
  resizeTimeoutRef :: bool
  isScrollingRef :: bool
  console :: "string list"
  mathRandom :: rng

text \<open>
  The assignments \<open>canvas.width = v\<close> and \<open>canvas.height = v\<close> go through the platform's
  setter of an \<open>unsigned long\<close> attribute with a default (300 for the width, 150 for the
  height): the number is truncated towards zero and taken modulo \<open>2^32\<close>, and a result
  above \<open>2^31 - 1\<close>, as a negative number gives, sets the default instead.
\<close>

definition toUint32 :: "real \<Rightarrow> int" where
  "toUint32 v = (if 0 \<le> v then \<lfloor>v\<rfloor> else \<lceil>v\<rceil>) mod 4294967296"

definition setCanvasDimension :: "real \<Rightarrow> real \<Rightarrow> real" where
  "setCanvasDimension dflt v =
     (if toUint32 v > 2147483647 then dflt else real_of_int (toUint32 v))"

definition refsMissing :: "snowfall \<Rightarrow> bool" where
  "refsMissing S =
     (containerRef S = None \<or> back_layer (canvasRefs S) = None \<or>
      mid_layer (canvasRefs S) = None \<or> front_layer (canvasRefs S) = None)"

definition applyResize :: "props \<Rightarrow> host \<Rightarrow> real \<Rightarrow> real \<Rightarrow> snowfall \<Rightarrow> snowfall" where
  "applyResize P H width height S =
     (if refsMissing S then S
      else
        (let S1 = S\<lparr>stableDimensionsRef := (width, height)\<rparr>;
             canvas = Some (setCanvasDimension 300 width, setCanvasDimension 150 height);
             S2 = S1\<lparr>canvasRefs := \<lparr>back_layer = canvas, mid_layer = canvas,
                                    front_layer = canvas\<rparr>\<rparr>;
             S3 = (if useWebGL P
                   then (let S' = S2\<lparr>webglStateRef := \<lparr>back_layer = initWebGL H,
                                                       mid_layer = initWebGL H,
                                                       front_layer = initWebGL H\<rparr>\<rparr>
                         in if back_layer (webglStateRef S') \<noteq> None \<and>
                               mid_layer (webglStateRef S') \<noteq> None \<and>
                               front_layer (webglStateRef S') \<noteq> None
                            then S'\<lparr>console := console S' @ [''Snowfall: Using WebGL renderer'']\<rparr>
                            else S'\<lparr>console := console S' @
                                     [''Snowfall: WebGL init failed, using Canvas fallback'']\<rparr>)
                   else S2\<lparr>console := console S2 @ [''Snowfall: Using Canvas 2D renderer'']\<rparr>)
         in (case initParticles P width height (mathRandom S3) of (ls, g') \<Rightarrow>
               S3\<lparr>particlesRef := ls, mathRandom := g'\<rparr>)))"

text \<open>
  \<open>handleResize\<close>, run on every layout-change signal, and the callback it hands to
  \<open>setTimeout\<close>, run when the timer fires.
\<close>

definition handleResize :: "props \<Rightarrow> host \<Rightarrow> snowfall \<Rightarrow> snowfall" where
  "handleResize P H S =
     (case containerRef S of
        None \<Rightarrow> S
      | Some (clientWidth, clientHeight) \<Rightarrow>
          if isScrollingRef S \<and> mobile H then S
          else
            (let stable = stableDimensionsRef S;
                 widthDiff = \<bar>clientWidth - fst stable\<bar>;
                 heightDiff = \<bar>clientHeight - snd stable\<bar>
             in if fst stable = 0 \<or> snd stable = 0
                then applyResize P H clientWidth clientHeight S
                else if widthDiff < 50 \<and> heightDiff < 50 then S
                else S\<lparr>resizeTimeoutRef := True\<rparr>))"

definition resizeTimeoutFired :: "props \<Rightarrow> host \<Rightarrow> snowfall \<Rightarrow> snowfall" where
  "resizeTimeoutFired P H S0 =
     (let S = S0\<lparr>resizeTimeoutRef := False\<rparr>
      in case containerRef S of
           None \<Rightarrow> S
         | Some (w, h) \<Rightarrow>
             if isScrollingRef S \<and> mobile H then S else applyResize P H w h S)"

text \<open>
  The start of the effect that runs on mount: WebGL state is cleared when WebGL is not
  used, and the container's dimensions are recorded and committed at once.
\<close>

definition mountEffect :: "props \<Rightarrow> host \<Rightarrow> snowfall \<Rightarrow> snowfall" where
  "mountEffect P H S0 =
     (let S = (if \<not> useWebGL P
               then S0\<lparr>webglStateRef := \<lparr>back_layer = None, mid_layer = None,
                                           front_layer = None\<rparr>\<rparr>
               else S0)
      in case containerRef S of
           None \<Rightarrow> S
         | Some (clientWidth, clientHeight) \<Rightarrow>
             applyResize P H clientWidth clientHeight
               (S\<lparr>stableDimensionsRef := (clientWidth, clientHeight)\<rparr>))"

text \<open>
  One run of \<open>loop\<close>: the new state and the three draw calls of the frame. The branch
  \<open>useWebGL && webgl.back ... else if (backCanvasRef.current) ...\<close> is \<open>drawLayer\<close>.
\<close>

definition drawLayer ::
  "props \<Rightarrow> host \<Rightarrow> WebGLState option \<Rightarrow> (real \<times> real) option \<Rightarrow> particle list \<Rightarrow> real \<Rightarrow> draw" where
  "drawLayer P H webgl canvas ps layerOpacity =
     (case (if useWebGL P then webgl else None) of
        Some st \<Rightarrow> renderWebGL st ps (globalOpacity P) layerOpacity
      | None \<Rightarrow>
          (if canvas \<noteq> None
           then (if context2d H then drawParticlesCanvas ps (globalOpacity P) layerOpacity
                 else NoDraw)
           else NoDraw))"

definition loop :: "props \<Rightarrow> host \<Rightarrow> snowfall \<Rightarrow> snowfall \<times> draw layers" where
  "loop P H S =
     (case containerRef S of
        None \<Rightarrow> (S, \<lparr>back_layer = NoDraw, mid_layer = NoDraw, front_layer = NoDraw\<rparr>)
      | Some (clientWidth, clientHeight) \<Rightarrow>
         (let width = fst (stableDimensionsRef S);
              height = snd (stableDimensionsRef S);
              currentWidth = (if width > 0 then width else clientWidth);
              currentHeight = (if height > 0 then height else clientHeight);
              webgl = webglStateRef S
          in case getDynamicWind (wind P) (windStateRef S) (mathRandom S) of
               (currentWind, ws, g1) \<Rightarrow>
             case updateParticles P (back_layer (particlesRef S))
                    currentWidth currentHeight 0.5 currentWind g1 of (b, g2) \<Rightarrow>
             case updateParticles P (mid_layer (particlesRef S))
                    currentWidth currentHeight 1.0 currentWind g2 of (m, g3) \<Rightarrow>
             case updateParticles P (front_layer (particlesRef S))
                    currentWidth currentHeight 1.5 currentWind g3 of (f, g4) \<Rightarrow>
               (S\<lparr>windStateRef := ws,
                   particlesRef := \<lparr>back_layer = b, mid_layer = m, front_layer = f\<rparr>,
                   mathRandom := g4\<rparr>,
                \<lparr>back_layer = drawLayer P H (back_layer webgl) (back_layer (canvasRefs S)) b 0.3,
                 mid_layer = drawLayer P H (mid_layer webgl) (mid_layer (canvasRefs S)) m 0.6,
                 front_layer =
                   drawLayer P H (front_layer webgl) (front_layer (canvasRefs S)) f 0.8\<rparr>)))"

section \<open>Vocabulary of the properties\<close>

text \<open>\<open>clamp(v, lo, hi)\<close> of the specification.\<close>

definition clamp :: "real \<Rightarrow> real \<Rightarrow> real \<Rightarrow> real" where
  "clamp v lo hi = max lo (min hi v)"

text \<open>A stream of draws that are all different: \<open>1/2, 1/3, 1/4, ...\<close>\<close>

definition harmonicDraws :: rng where
  "harmonicDraws = (\<lambda>n. 1 / (real n + 2))"

text \<open>The props' defaults (\<open>Snowfall\<close>'s parameter list), with the canvas renderer chosen.\<close>

definition defaultProps :: props where
  "defaultProps = \<lparr>density = 1200, speed = 1.2, wind = 0.2, minRadius = 0.2, maxRadius = 2.3,
     roughness = 0.9, globalOpacity = 1.0, useWebGL = False\<rparr>"

text \<open>
  The position of a particle after the two \<open>+=\<close> assignments of the callback and
  before its wrap logic; \<open>sway\<close> is the sum of the two sway terms.
\<close>

definition sway :: "particle \<Rightarrow> real" where
  "sway p = primarySway (p\<lparr>wobble := wobble p + wobbleSpeed p\<rparr>) +
            secondarySway (p\<lparr>wobble := wobble p + wobbleSpeed p\<rparr>)"

definition movedX :: "real \<Rightarrow> real \<Rightarrow> particle \<Rightarrow> real" where
  "movedX wMult currentWind p = x p + (currentWind * wMult + vx p + sway p)"

definition movedY :: "props \<Rightarrow> particle \<Rightarrow> real" where
  "movedY P p = y p + speed P * vy p"

text \<open>
  The number of particles of a list that leave through the bottom edge in one call. Each
  of them takes one draw of \<open>Math.random()\<close> for its new \<open>x\<close>, so that particle \<open>i\<close> of a
  list \<open>ps\<close> finds the stream advanced by \<open>reentries P h (take i ps)\<close> draws.
\<close>

definition reentries :: "props \<Rightarrow> real \<Rightarrow> particle list \<Rightarrow> nat" where
  "reentries P h ps = length (filter (\<lambda>p. movedY P p > h + radius p) ps)"

text \<open>
  Example particles. \<open>risingParticle\<close> is a mid-layer flake near the top edge;
  \<open>bottomParticle\<close>, \<open>rightEdgeParticle\<close> and \<open>leftEdgeParticle\<close> are flakes about to
  leave an 800 by 600 surface through the bottom, the right and the left edge;
  \<open>swayingParticle\<close> has no velocity and a wobble phase just below a quarter turn;
  \<open>balancedParticle\<close> has no velocity and two sway terms that cancel in the next call;
  \<open>stillParticle\<close> has neither velocity nor sway.
\<close>

definition bottomParticle :: particle where
  "bottomParticle = \<lparr>x = 100, y = 600.4, radius = 0.5, opacity = 0.5, vx = 0.05, vy = 0.2,
     wobble = 0, wobbleSpeed = 0.01, swayAmplitude = 0.2, shapeOffsets = [], shapeSeed = 0\<rparr>"

definition rightEdgeParticle :: particle where
  "rightEdgeParticle = \<lparr>x = 800.4, y = 300, radius = 0.5, opacity = 0.5, vx = 0.05, vy = 0.2,
     wobble = 0, wobbleSpeed = 0.01, swayAmplitude = 0.2, shapeOffsets = [], shapeSeed = 0\<rparr>"

definition leftEdgeParticle :: particle where
  "leftEdgeParticle = \<lparr>x = - 0.4, y = 300, radius = 0.5, opacity = 0.5, vx = - 0.05, vy = 0.2,
     wobble = 0, wobbleSpeed = 0.01, swayAmplitude = 0.2, shapeOffsets = [], shapeSeed = 0\<rparr>"

definition balancedParticle :: particle where
  "balancedParticle = \<lparr>x = 400, y = 50 * pi, radius = 1, opacity = 0.5, vx = 0, vy = 0,
     wobble = - 0.01, wobbleSpeed = 0.01, swayAmplitude = 0.5, shapeOffsets = [],
     shapeSeed = 0\<rparr>"

definition risingParticle :: particle where
  "risingParticle = \<lparr>x = 400, y = 0.1, radius = 0.5, opacity = 0.5, vx = 0, vy = 0.2,
     wobble = 0, wobbleSpeed = 0.01, swayAmplitude = 0.2, shapeOffsets = [], shapeSeed = 0\<rparr>"

definition swayingParticle :: particle where
  "swayingParticle = \<lparr>x = 400, y = 300, radius = 1, opacity = 0.5, vx = 0, vy = 0,
     wobble = pi / 2 - 0.01, wobbleSpeed = 0.01, swayAmplitude = 0.5, shapeOffsets = [],
     shapeSeed = 0\<rparr>"

definition stillParticle :: particle where
  "stillParticle = \<lparr>x = 400, y = 300, radius = 1, opacity = 0.5, vx = 0, vy = 0,
     wobble = 0, wobbleSpeed = 0.01, swayAmplitude = 0, shapeOffsets = [], shapeSeed = 0\<rparr>"

text \<open>
  How \<open>updateParticle\<close> relates a particle \<open>p\<close> to its successor \<open>q\<close> on a surface of
  width \<open>w\<close> and height \<open>h\<close>, when \<open>r\<close> is the next draw of \<open>Math.random()\<close>: the bounds
  after the call, the lower bound of \<open>y\<close> under its two conditions, and the three wraps
  (re-entry from the top at \<open>x = r * w\<close>, and the two horizontal edges).
\<close>

definition wrapRel ::
  "props \<Rightarrow> real \<Rightarrow> real \<Rightarrow> real \<Rightarrow> real \<Rightarrow> real \<Rightarrow> particle \<Rightarrow> particle \<Rightarrow> bool" where
  "wrapRel P w h wMult cw r p q =
     (- radius q \<le> x q \<and> x q \<le> w + radius q \<and> y q \<le> h + radius q \<and>
      (- radius p \<le> y p \<and> 0 \<le> speed P * vy p \<longrightarrow> - radius q \<le> y q) \<and>
      (movedY P p > h + radius p \<longrightarrow>
         y q = - radius p \<and> x q = r * w \<and> 0 \<le> x q \<and> x q \<le> w) \<and>
      (movedY P p \<le> h + radius p \<longrightarrow>
         y q = movedY P p \<and>
         (movedX wMult cw p > w + radius p \<longrightarrow> x q = - radius p) \<and>
         (movedX wMult cw p < - radius p \<longrightarrow> x q = w + radius p) \<and>
         (- radius p \<le> movedX wMult cw p \<and> movedX wMult cw p \<le> w + radius p
            \<longrightarrow> x q = movedX wMult cw p)))"

text \<open>The fields of a particle that are set at creation and never assigned afterwards.\<close>

definition sameFrame :: "particle \<Rightarrow> particle \<Rightarrow> bool" where
  "sameFrame p q =
     (radius q = radius p \<and> opacity q = opacity p \<and> vx q = vx p \<and> vy q = vy p \<and>
      wobbleSpeed q = wobbleSpeed p \<and> swayAmplitude q = swayAmplitude p \<and>
      shapeOffsets q = shapeOffsets p \<and> shapeSeed q = shapeSeed p)"

text \<open>
  How \<open>updateParticle\<close> relates a particle \<open>p\<close> without velocity to its successor \<open>q\<close> when
  there is no wind and \<open>r\<close> is the next draw of \<open>Math.random()\<close>. The wobble phase
  advances. A particle that is not below the bottom edge keeps its \<open>y\<close>, and its \<open>x\<close>
  moves by the sway, then wraps at the horizontal edges; where it does not wrap, \<open>x\<close> is
  unchanged exactly when the sway is zero, as it is when the sway amplitude is zero. A
  particle that is below the bottom edge re-enters from the top at \<open>r * w\<close> (wrapped
  horizontally like any \<open>x\<close>).
\<close>

definition restRel :: "real \<Rightarrow> real \<Rightarrow> real \<Rightarrow> particle \<Rightarrow> particle \<Rightarrow> bool" where
  "restRel w h r p q =
     (wobble q = wobble p + wobbleSpeed p \<and> sameFrame p q \<and>
      (y p \<le> h + radius p \<longrightarrow>
         y q = y p \<and>
         (x p + sway p > w + radius p \<longrightarrow> x q = - radius p) \<and>
         (x p + sway p \<le> w + radius p \<and> x p + sway p < - radius p \<longrightarrow>
            x q = w + radius p) \<and>
         (- radius p \<le> x p + sway p \<and> x p + sway p \<le> w + radius p \<longrightarrow>
            x q = x p + sway p \<and> ((x q = x p) = (sway p = 0))) \<and>
         (swayAmplitude p = 0 \<longrightarrow> sway p = 0)) \<and>
      (y p > h + radius p \<longrightarrow>
         y q = - radius p \<and>
         x q = (if r * w > w + radius p then - radius p
                else if r * w < - radius p then w + radius p else r * w)))"

text \<open>
  The wind state a component starts with, and a stream of draws that starts a gust on the
  first call: \<open>0 < 0.0005\<close>, then strength \<open>0.5 + 1.5 / 3 = 1\<close>, direction \<open>+1\<close>
  (\<open>0.75 > 0.5\<close>) and duration \<open>2 + 3 \<sqdot> 5 / 6 = 4.5\<close>.
\<close>

definition initialWind :: windState where
  "initialWind = \<lparr>time = 0, gustTime = 0, gustStrength = 0, gustDirection = 1\<rparr>"

definition gustDraws :: rng where
  "gustDraws = (\<lambda>n. if n = 0 then 0 else if n = 1 then 1 / 3 else if n = 2 then 3 / 4 else 5 / 6)"

text \<open>
  The wind, width and height that one run of \<open>loop\<close> works with: \<open>currentWind\<close>,
  \<open>currentWidth\<close> and \<open>currentHeight\<close> of the source.
\<close>

definition frameWind :: "props \<Rightarrow> snowfall \<Rightarrow> real" where
  "frameWind P S = fst (getDynamicWind (wind P) (windStateRef S) (mathRandom S))"

definition frameWidth :: "snowfall \<Rightarrow> real" where
  "frameWidth S =
     (if fst (stableDimensionsRef S) > 0 then fst (stableDimensionsRef S)
      else (case containerRef S of Some (clientWidth, clientHeight) \<Rightarrow> clientWidth | None \<Rightarrow> 0))"

definition frameHeight :: "snowfall \<Rightarrow> real" where
  "frameHeight S =
     (if snd (stableDimensionsRef S) > 0 then snd (stableDimensionsRef S)
      else (case containerRef S of Some (clientWidth, clientHeight) \<Rightarrow> clientHeight | None \<Rightarrow> 0))"

text \<open>
  Example instances. \<open>freshSnowfall cw ch\<close> is a component before its first effect, in a
  container that measures \<open>cw\<close> by \<open>ch\<close> (the canvases have the default 300 by 150);
  \<open>unmountedSnowfall\<close> has lost its container; \<open>scrollingSnowfall\<close> is a fresh
  instance in a container of 0 by 0 while a scroll is in progress; \<open>oneFlakeSnowfall\<close>
  is an 800 by 600 instance whose back layer holds the particle without velocity and
  sway.
\<close>

definition desktopHost :: host where
  "desktopHost = \<lparr>glAvailable = True, context2d = True, mobile = False\<rparr>"

definition mobileHost :: host where
  "mobileHost = \<lparr>glAvailable = True, context2d = True, mobile = True\<rparr>"

definition webglProps :: props where
  "webglProps = defaultProps\<lparr>useWebGL := True\<rparr>"

definition freshSnowfall :: "real \<Rightarrow> real \<Rightarrow> snowfall" where
  "freshSnowfall cw ch =
     \<lparr>containerRef = Some (cw, ch),
      canvasRefs = \<lparr>back_layer = Some (300, 150), mid_layer = Some (300, 150),
                    front_layer = Some (300, 150)\<rparr>,
      webglStateRef = \<lparr>back_layer = None, mid_layer = None, front_layer = None\<rparr>,
      particlesRef = \<lparr>back_layer = [], mid_layer = [], front_layer = []\<rparr>,
      windStateRef = initialWind,
      stableDimensionsRef = (0, 0),
      resizeTimeoutRef = False,
      isScrollingRef = False,
      console = [],
      mathRandom = (\<lambda>n. 1 / 2)\<rparr>"

definition unmountedSnowfall :: snowfall where
  "unmountedSnowfall = (freshSnowfall 800 600)\<lparr>containerRef := None\<rparr>"

definition scrollingSnowfall :: snowfall where
  "scrollingSnowfall = (freshSnowfall 0 0)\<lparr>isScrollingRef := True\<rparr>"

definition oneFlakeSnowfall :: snowfall where
  "oneFlakeSnowfall = (freshSnowfall 800 600)
     \<lparr>particlesRef := \<lparr>back_layer = [stillParticle], mid_layer = [], front_layer = []\<rparr>,
      stableDimensionsRef := (800, 600)\<rparr>"

section \<open>Basic facts\<close>

lemma valid_rng_tail: "valid_rng g \<Longrightarrow> valid_rng (\<lambda>n. g (Suc n))"
  by (simp add: valid_rng_def)

lemma length_genLoop:
  "genLoop k P w h rMin rMax sMult g = (ps, g') \<Longrightarrow> length ps = k"
  by (induction k arbitrary: g ps) (auto split: prod.splits)

lemma length_generateParticles:
  "generateParticles P w h c rMin rMax sMult g = (ps, g') \<Longrightarrow> length ps = nat c"
  by (simp add: generateParticles_def length_genLoop)

lemma initParticles_layers:
  "\<exists>backParticles midParticles frontParticles cameraParticles.
     fst (initParticles P w h g)
       = \<lparr>back_layer = backParticles, mid_layer = midParticles,
          front_layer = frontParticles @ cameraParticles\<rparr> \<and>
     length backParticles = nat \<lfloor>density P * 0.8\<rfloor> \<and>
     length midParticles = nat \<lfloor>density P * 0.5\<rfloor> \<and>
     length frontParticles = nat (max 5 \<lfloor>density P * 0.1\<rfloor>) \<and>
     length cameraParticles = nat (max 2 \<lfloor>density P * 0.004\<rfloor>)"
  unfolding initParticles_def
  by (auto split: prod.splits dest!: length_generateParticles)

lemma updateParticle_sameFrame:
  "sameFrame p (fst (updateParticle P w h wMult cw p g))"
  by (simp add: updateParticle_def sameFrame_def Let_def split: prod.splits)

lemma valid_harmonicDraws: "valid_rng harmonicDraws"
  by (simp add: valid_rng_def harmonicDraws_def)

lemma valid_rng_shift: "valid_rng g \<Longrightarrow> valid_rng (\<lambda>n. g (n + k))"
  by (simp add: valid_rng_def)

lemma snd_shapeLoop: "snd (shapeLoop k i n rad rough g) = (\<lambda>m. g (m + k))"
  by (induction k arbitrary: i g) (simp_all add: Math_random_def case_prod_beta)

lemma length_shapeLoop: "length (fst (shapeLoop k i n rad rough g)) = k"
  by (induction k arbitrary: i g) (simp_all add: Math_random_def case_prod_beta)

lemma nth_shapeLoop:
  "j < k \<Longrightarrow> fst (shapeLoop k i n rad rough g) ! j = shapeVertex (i + j) n rad rough (g j)"
proof (induction k arbitrary: i g j)
  case 0
  then show ?case by simp
next
  case (Suc k)
  show ?case
  proof (cases j)
    case 0
    then show ?thesis by (simp add: Math_random_def case_prod_beta)
  next
    case (Suc j')
    then have "j' < k" using Suc.prems by simp
    from Suc.IH [OF this, of "Suc i" "\<lambda>n. g (Suc n)"] Suc show ?thesis
      by (simp add: Math_random_def case_prod_beta)
  qed
qed

lemma snd_createIrregularShape:
  "snd (createIrregularShape rad rough g) = (\<lambda>m. g (Suc (m + nat (5 + \<lfloor>g 0 * 4\<rfloor>))))"
  by (simp add: createIrregularShape_def Math_random_def Let_def snd_shapeLoop)

lemma createIrregularShape_valid:
  "valid_rng g \<Longrightarrow> valid_rng (snd (createIrregularShape rad rough g))"
  by (simp add: snd_createIrregularShape valid_rng_def)

lemma makeParticle_radius:
  "radius (fst (makeParticle P w h rMin rMax sMult g)) = g 0 * (rMax - rMin) + rMin"
  by (simp add: makeParticle_def random_def Math_random_def case_prod_beta Let_def numeral_2_eq_2)


lemma makeParticle_opacity:
  assumes "sizeFactor (g 0 * (rMax - rMin) + rMin) rMin rMax = Some sf"
  shows "opacity (fst (makeParticle P w h rMin rMax sMult g)) =
           clamp (0.1 + sf * 0.7 + (g 1 * 0.6 - 0.3)) 0.1 1.0"
  using assms
  by (simp add: makeParticle_def random_def Math_random_def case_prod_beta Let_def clamp_def)

lemma makeParticle_vy:
  "vy (fst (makeParticle P w h rMin rMax sMult g)) =
     ((g 0 * (rMax - rMin) + rMin) / 2.5) * sMult * (g 2 * (1.15 - 0.85) + 0.85)"
  by (simp add: makeParticle_def random_def Math_random_def case_prod_beta Let_def numeral_2_eq_2)

lemma makeParticle_valid:
  "valid_rng g \<Longrightarrow> valid_rng (snd (makeParticle P w h rMin rMax sMult g))"
  by (simp add: makeParticle_def random_def Math_random_def case_prod_beta Let_def
      snd_createIrregularShape valid_rng_def)

lemma genLoop_all:
  assumes "\<And>g. valid_rng g \<Longrightarrow> Q (fst (makeParticle P w h rMin rMax sMult g))"
  shows "valid_rng g \<Longrightarrow> list_all Q (fst (genLoop k P w h rMin rMax sMult g))"
proof (induction k arbitrary: g)
  case 0
  then show ?case by simp
next
  case (Suc k)
  have "valid_rng (snd (makeParticle P w h rMin rMax sMult g))"
    using Suc.prems by (rule makeParticle_valid)
  from Suc.IH [OF this] assms [OF Suc.prems] show ?case
    by (simp add: case_prod_beta)
qed

lemma generateParticles_all:
  assumes "\<And>g. valid_rng g \<Longrightarrow> Q (fst (makeParticle P w h rMin rMax sMult g))"
    and "valid_rng g"
  shows "list_all Q (fst (generateParticles P w h c rMin rMax sMult g))"
  unfolding generateParticles_def using assms by (rule genLoop_all)


lemma clamp_bounds: "lo \<le> hi \<Longrightarrow> lo \<le> clamp v lo hi \<and> clamp v lo hi \<le> hi"
  by (auto simp: clamp_def)

section \<open>Generated particles\<close>



text \<open>
  C10. With a degenerate range \<open>rMin = rMax = r\<close> the denominator \<open>rMax - rMin || 1\<close> is 1,
  not 0: for every generated particle, of radius \<open>r\<close>, the division that computes the
  size factor has a value, namely 0, and the opacity is \<open>clamp(0.1 + u, 0.1, 1.0)\<close> for a
  noise term \<open>u\<close> in \<open>[-0.3, 0.3)\<close>, hence in \<open>[0.1, 1.0]\<close>.
\<close>

theorem C10_degenerate_radius_range:
  assumes "valid_rng g"
  shows "js_or (r - r) 1 = 1 \<and>
         (\<forall>p \<in> set (fst (generateParticles P w h c r r sMult g)).
            radius p = r \<and> sizeFactor (radius p) r r = Some 0 \<and>
            (\<exists>u. - 0.3 \<le> u \<and> u < 0.3 \<and> opacity p = clamp (0.1 + u) 0.1 1.0) \<and>
            0.1 \<le> opacity p \<and> opacity p \<le> 1.0)"
proof -
  let ?Q = "\<lambda>p. radius p = r \<and> sizeFactor (radius p) r r = Some 0 \<and>
            (\<exists>u. - 0.3 \<le> u \<and> u < 0.3 \<and> opacity p = clamp (0.1 + u) 0.1 1.0) \<and>
            0.1 \<le> opacity p \<and> opacity p \<le> 1.0"
  have one: "?Q (fst (makeParticle P w h r r sMult g'))" if v: "valid_rng g'" for g'
  proof -
    let ?p = "fst (makeParticle P w h r r sMult g')"
    have g1: "0 \<le> g' 1" "g' 1 < 1"
      using v by (simp_all add: valid_rng_def)
    have rad: "radius ?p = r" by (simp add: makeParticle_radius)
    have sf: "sizeFactor r r r = Some 0" by (simp add: sizeFactor_def js_div_def js_or_def)
    have op: "opacity ?p = clamp (0.1 + (g' 1 * 0.6 - 0.3)) 0.1 1.0"
      using makeParticle_opacity [of g' r r 0 P w h sMult] sf by simp
    have u: "- 0.3 \<le> g' 1 * 0.6 - 0.3 \<and> g' 1 * 0.6 - 0.3 < 0.3"
      using g1 by simp
    have bounds: "0.1 \<le> opacity ?p \<and> opacity ?p \<le> 1.0"
      unfolding op by (rule clamp_bounds) simp
    from rad sf op u bounds show ?thesis by (simp only:) blast
  qed
  have "list_all ?Q (fst (generateParticles P w h c r r sMult g))"
    using one assms by (rule generateParticles_all)
  then show ?thesis by (auto simp: list_all_iff js_or_def)
qed

text \<open>The range \<open>[2, 2]\<close>, three particles, every draw one half.\<close>

theorem C10_witness:
  "valid_rng (\<lambda>n. 1 / 2) \<and> js_or (2 - 2) 1 = 1 \<and>
   length (fst (generateParticles defaultProps 800 600 3 2 2 1.0 (\<lambda>n. 1 / 2))) = 3 \<and>
   list_all (\<lambda>p. radius p = 2 \<and> sizeFactor (radius p) 2 2 = Some 0 \<and>
                0.1 \<le> opacity p \<and> opacity p \<le> 1.0)
     (fst (generateParticles defaultProps 800 600 3 2 2 1.0 (\<lambda>n. 1 / 2)))"
proof -
  have h: "valid_rng (\<lambda>n. 1 / 2)" by (simp add: valid_rng_def)
  have len: "length (fst (generateParticles defaultProps 800 600 3 2 2 1.0 (\<lambda>n. 1 / 2))) = 3"
    using length_generateParticles [of defaultProps 800 600 3 2 2 "1.0" "\<lambda>n. 1 / 2"]
    by (cases "generateParticles defaultProps 800 600 3 2 2 1.0 (\<lambda>n. 1 / 2)") simp
  show ?thesis
    using h len C10_degenerate_radius_range [OF h, of 2 defaultProps 800 600 3 "1.0"]
    by (auto simp: list_all_iff js_or_def)
qed

section \<open>Layer counts\<close>

text \<open>
  C6. With \<open>density = 1200\<close>, \<open>initParticles\<close> produces 960 back-layer particles, 600
  mid-layer particles, and a front layer of 124 particles: the 120 front particles
  followed by the 4 close-pass particles, whatever the other props, the surface size and
  the random draws are.
\<close>

theorem C6_density_1200_layer_counts:
  "length (back_layer (fst (initParticles (P\<lparr>density := 1200\<rparr>) w h g))) = 960 \<and>
   length (mid_layer (fst (initParticles (P\<lparr>density := 1200\<rparr>) w h g))) = 600 \<and>
   (\<exists>frontParticles cameraParticles.
      front_layer (fst (initParticles (P\<lparr>density := 1200\<rparr>) w h g))
        = frontParticles @ cameraParticles \<and>
      length frontParticles = 120 \<and> length cameraParticles = 4) \<and>
   length (front_layer (fst (initParticles (P\<lparr>density := 1200\<rparr>) w h g))) = 124"
proof -
  obtain b m f c where
    init: "fst (initParticles (P\<lparr>density := 1200\<rparr>) w h g)
             = \<lparr>back_layer = b, mid_layer = m, front_layer = f @ c\<rparr>"
    and lb: "length b = nat \<lfloor>density (P\<lparr>density := 1200\<rparr>) * 0.8\<rfloor>"
    and lm: "length m = nat \<lfloor>density (P\<lparr>density := 1200\<rparr>) * 0.5\<rfloor>"
    and lf: "length f = nat (max 5 \<lfloor>density (P\<lparr>density := 1200\<rparr>) * 0.1\<rfloor>)"
    and lc: "length c = nat (max 2 \<lfloor>density (P\<lparr>density := 1200\<rparr>) * 0.004\<rfloor>)"
    using initParticles_layers [of "P\<lparr>density := 1200\<rparr>" w h g] by blast
  have "length b = 960" using lb by simp
  moreover have "length m = 600" using lm by simp
  moreover have "length f = 120" using lf by simp
  moreover have "length c = 4" using lc by simp
  ultimately show ?thesis
    unfolding init by auto
qed

section \<open>Advancing particles: what stays fixed\<close>

text \<open>
  C9. \<open>updateParticles\<close> keeps the number and order of the particles and assigns only
  \<open>x\<close>, \<open>y\<close> and \<open>wobble\<close>: each particle's \<open>radius\<close>, \<open>opacity\<close>, \<open>vx\<close>, \<open>vy\<close>,
  \<open>wobbleSpeed\<close>, \<open>swayAmplitude\<close>, \<open>shapeOffsets\<close> and \<open>shapeSeed\<close> are the same after
  the call as before it.
\<close>

theorem C9_advance_frame:
  "list_all2 sameFrame ps (fst (updateParticles P ps w h wMult cw g))"
  by (induction ps arbitrary: g) (simp_all add: case_prod_beta updateParticle_sameFrame)

section \<open>Advancing particles: wrap bounds\<close>

lemma updateParticle_y:
  "y (fst (updateParticle P w h wMult cw p g)) =
     (if movedY P p > h + radius p then - radius p else movedY P p)"
  by (simp add: updateParticle_def Let_def movedY_def Math_random_def)

lemma updateParticle_x:
  "x (fst (updateParticle P w h wMult cw p g)) =
     (let x1 = (if movedY P p > h + radius p then g 0 * w else movedX wMult cw p)
      in if x1 > w + radius p then - radius p
         else if x1 < - radius p then w + radius p else x1)"
  by (simp add: updateParticle_def Let_def movedY_def movedX_def sway_def Math_random_def
      primarySway_def secondarySway_def)

lemma updateParticle_wobble:
  "wobble (fst (updateParticle P w h wMult cw p g)) = wobble p + wobbleSpeed p"
  by (simp add: updateParticle_def Let_def Math_random_def)

lemma updateParticle_radius:
  "radius (fst (updateParticle P w h wMult cw p g)) = radius p"
  by (simp add: updateParticle_def Let_def Math_random_def)

lemma updateParticle_valid:
  "valid_rng g \<Longrightarrow> valid_rng (snd (updateParticle P w h wMult cw p g))"
  by (simp add: updateParticle_def Let_def Math_random_def valid_rng_def)

lemma updateParticle_snd:
  "snd (updateParticle P w h wMult cw p g) =
     (if movedY P p > h + radius p then (\<lambda>n. g (Suc n)) else g)"
  by (simp add: updateParticle_def Let_def movedY_def Math_random_def)

lemma length_updateParticles:
  "length (fst (updateParticles P ps w h wMult cw g)) = length ps"
  by (induction ps arbitrary: g) (simp_all add: case_prod_beta)

lemma updateParticles_nth:
  "i < length ps \<Longrightarrow>
     fst (updateParticles P ps w h wMult cw g) ! i
       = fst (updateParticle P w h wMult cw (ps ! i) (\<lambda>n. g (n + reentries P h (take i ps))))"
proof (induction ps arbitrary: i g)
  case Nil
  then show ?case by simp
next
  case (Cons p ps)
  show ?case
  proof (cases i)
    case 0
    then show ?thesis by (simp add: case_prod_beta reentries_def)
  next
    case (Suc j)
    then have "j < length ps" using Cons.prems by simp
    from Cons.IH [OF this, of "snd (updateParticle P w h wMult cw p g)"] Suc show ?thesis
      by (simp add: case_prod_beta reentries_def updateParticle_snd)
  qed
qed

lemma updateParticles_rel_any:
  assumes "\<And>p g. p \<in> set ps \<Longrightarrow> R p (fst (updateParticle P w h wMult cw p g))"
  shows "list_all2 R ps (fst (updateParticles P ps w h wMult cw g))"
  using assms
proof (induction ps arbitrary: g)
  case Nil
  then show ?case by simp
next
  case (Cons p ps)
  have "list_all2 R ps
      (fst (updateParticles P ps w h wMult cw (snd (updateParticle P w h wMult cw p g))))"
    using Cons.prems by (intro Cons.IH) auto
  moreover have "R p (fst (updateParticle P w h wMult cw p g))"
    using Cons.prems by simp
  ultimately show ?case by (simp add: case_prod_beta)
qed

lemma updateParticle_wrapRel:
  assumes v: "valid_rng g" and w: "0 \<le> w" and h: "0 \<le> h" and r: "0 \<le> radius p"
  shows "wrapRel P w h wMult cw (g 0) p (fst (updateParticle P w h wMult cw p g))"
proof (cases "movedY P p > h + radius p")
  case True
  have g0: "0 \<le> g 0" "g 0 < 1" using v by (simp_all add: valid_rng_def)
  have gw: "0 \<le> g 0 * w" "g 0 * w \<le> w"
    using g0 w by (simp_all add: mult_left_le_one_le)
  have xq: "x (fst (updateParticle P w h wMult cw p g)) = g 0 * w"
    unfolding updateParticle_x Let_def using True gw r by auto
  have yq: "y (fst (updateParticle P w h wMult cw p g)) = - radius p"
    unfolding updateParticle_y using True by simp
  show ?thesis
    unfolding wrapRel_def xq yq updateParticle_radius
    using True gw r h by auto
next
  case False
  have yq: "y (fst (updateParticle P w h wMult cw p g)) = movedY P p"
    unfolding updateParticle_y using False by simp
  have xq: "x (fst (updateParticle P w h wMult cw p g)) =
      (if movedX wMult cw p > w + radius p then - radius p
       else if movedX wMult cw p < - radius p then w + radius p else movedX wMult cw p)"
    unfolding updateParticle_x Let_def using False by simp
  have low: "- radius p \<le> y p \<Longrightarrow> 0 \<le> speed P * vy p \<Longrightarrow> - radius p \<le> movedY P p"
    by (simp add: movedY_def)
  show ?thesis
    unfolding wrapRel_def xq yq updateParticle_radius
    using False r w h low by auto
qed

lemma sway_zero: "swayAmplitude p = 0 \<Longrightarrow> sway p = 0"
  by (simp add: sway_def primarySway_def secondarySway_def)

lemma sway_bound: "\<bar>sway p\<bar> \<le> 1.2 * \<bar>swayAmplitude p\<bar>"
proof -
  define a where "a = wobble p + wobbleSpeed p"
  define b where "b = a * 1.8 + y p * 0.01"
  define u where "u = sin a * swayAmplitude p"
  define v where "v = cos b * (swayAmplitude p * 0.2)"
  have s: "sway p = u + v"
    by (simp add: sway_def primarySway_def secondarySway_def a_def b_def u_def v_def)
  have "\<bar>sin a\<bar> * \<bar>swayAmplitude p\<bar> \<le> 1 * \<bar>swayAmplitude p\<bar>"
    by (rule mult_right_mono) simp_all
  then have u: "\<bar>u\<bar> \<le> \<bar>swayAmplitude p\<bar>" by (simp add: u_def abs_mult)
  have "\<bar>cos b\<bar> * \<bar>swayAmplitude p * 0.2\<bar> \<le> 1 * \<bar>swayAmplitude p * 0.2\<bar>"
    by (rule mult_right_mono) simp_all
  then have v: "\<bar>v\<bar> \<le> 0.2 * \<bar>swayAmplitude p\<bar>" by (simp add: v_def abs_mult)
  have "\<bar>u + v\<bar> \<le> \<bar>u\<bar> + \<bar>v\<bar>" by (rule abs_triangle_ineq)
  with u v show ?thesis unfolding s by linarith
qed

lemma list1: "length xs = 1 \<Longrightarrow> xs = [xs ! 0]"
  by (cases xs) auto

lemma list3: "length xs = 3 \<Longrightarrow> xs = [xs ! 0, xs ! 1, xs ! 2]"
  by (auto simp: length_Suc_conv numeral_3_eq_3)

lemma updateParticle_restRel:
  assumes "vx p = 0" and "vy p = 0"
  shows "restRel w h (g 0) p (fst (updateParticle P w h wMult 0 p g))"
proof -
  have my: "movedY P p = y p" using assms by (simp add: movedY_def)
  have mx: "movedX wMult 0 p = x p + sway p" using assms by (simp add: movedX_def)
  show ?thesis
    unfolding restRel_def updateParticle_y updateParticle_x updateParticle_wobble
      my mx Let_def
    using updateParticle_sameFrame [of p P w h wMult 0 g]
    by (auto simp: sway_zero)
qed

text \<open>
  C1, as the code has it. On a surface with \<open>width \<ge> 0\<close> and \<open>height \<ge> 0\<close>, for particles
  with \<open>radius \<ge> 0\<close> and draws in \<open>[0, 1)\<close>, \<open>updateParticles\<close> keeps the number of
  particles, and afterwards every particle has \<open>x\<close> in \<open>[-radius, width + radius]\<close> and
  \<open>y \<le> height + radius\<close>. The lower bound \<open>-radius \<le> y\<close> holds for a particle that
  satisfied it before the call and for which \<open>speed * vy \<ge> 0\<close>: there is no wrap at the
  top edge. A particle whose updated \<open>y\<close> exceeds \<open>height + radius\<close> gets \<open>y = -radius\<close> and
  \<open>x = Math.random() * width\<close>, in \<open>[0, width]\<close>, where the draw is the next one of the
  stream: the one after the draws of the particles that re-entered before it in this
  call. Any other particle keeps its updated \<open>y\<close>, and its updated \<open>x\<close> is set to
  \<open>-radius\<close> when it exceeds \<open>width + radius\<close>, to \<open>width + radius\<close> when it is below
  \<open>-radius\<close>, and kept otherwise.
\<close>

theorem C1_wrap_bounds:
  assumes "valid_rng g" and "0 \<le> w" and "0 \<le> h" and "\<forall>p \<in> set ps. 0 \<le> radius p"
  shows "length (fst (updateParticles P ps w h wMult cw g)) = length ps \<and>
         (\<forall>i < length ps.
            wrapRel P w h wMult cw (g (reentries P h (take i ps))) (ps ! i)
              (fst (updateParticles P ps w h wMult cw g) ! i))"
proof -
  have "wrapRel P w h wMult cw (g (reentries P h (take i ps))) (ps ! i)
          (fst (updateParticles P ps w h wMult cw g) ! i)" if i: "i < length ps" for i
  proof -
    let ?g = "\<lambda>n. g (n + reentries P h (take i ps))"
    have v: "valid_rng ?g" using assms(1) by (rule valid_rng_shift)
    have r: "0 \<le> radius (ps ! i)" using assms(4) i by simp
    have "wrapRel P w h wMult cw (?g 0) (ps ! i)
            (fst (updateParticle P w h wMult cw (ps ! i) ?g))"
      using v assms(2,3) r by (rule updateParticle_wrapRel)
    then show ?thesis unfolding updateParticles_nth [OF i] by simp
  qed
  then show ?thesis by (simp add: length_updateParticles)
qed

text \<open>
  The default props on an 800 by 600 surface, with the draws \<open>1/2, 1/3, ...\<close>. Under a
  wind of 1, a flake leaving through the bottom, a flake leaving through the right edge
  and a second flake leaving through the bottom: the two re-enter at \<open>y = -0.5\<close> with
  \<open>x = 800 / 2\<close> and \<open>x = 800 / 3\<close>, the other one is moved to \<open>x = -0.5\<close>. Under a wind of
  \<open>-1\<close>, a flake leaving through the left edge is moved to \<open>x = 800.5\<close>.
\<close>

theorem C1_witness:
  "valid_rng harmonicDraws \<and> (0::real) \<le> 800 \<and> (0::real) \<le> 600 \<and>
   0 \<le> radius bottomParticle \<and> 0 \<le> radius rightEdgeParticle \<and> 0 \<le> radius leftEdgeParticle \<and>
   map x (fst (updateParticles defaultProps [bottomParticle, rightEdgeParticle, bottomParticle]
                 800 600 1.0 1.0 harmonicDraws)) = [400, - 0.5, 800 / 3] \<and>
   map y (fst (updateParticles defaultProps [bottomParticle, rightEdgeParticle, bottomParticle]
                 800 600 1.0 1.0 harmonicDraws)) = [- 0.5, 300.24, - 0.5] \<and>
   map x (fst (updateParticles defaultProps [leftEdgeParticle] 800 600 1.0 (- 1.0)
                 harmonicDraws)) = [800.5] \<and>
   map y (fst (updateParticles defaultProps [leftEdgeParticle] 800 600 1.0 (- 1.0)
                 harmonicDraws)) = [300.24]"
proof -
  let ?ps = "[bottomParticle, rightEdgeParticle, bottomParticle]"
  let ?qs = "fst (updateParticles defaultProps ?ps 800 600 1.0 1.0 harmonicDraws)"
  let ?ls = "fst (updateParticles defaultProps [leftEdgeParticle] 800 600 1.0 (- 1.0)
                 harmonicDraws)"
  have rads: "0 \<le> radius bottomParticle" "0 \<le> radius rightEdgeParticle"
      "0 \<le> radius leftEdgeParticle"
    by (simp_all add: bottomParticle_def rightEdgeParticle_def leftEdgeParticle_def)
  have h1: "\<forall>p \<in> set ?ps. 0 \<le> radius p" using rads by simp
  have h2: "\<forall>p \<in> set [leftEdgeParticle]. 0 \<le> radius p" using rads by simp
  have yb: "movedY defaultProps bottomParticle = 600.64"
    by (simp add: movedY_def defaultProps_def bottomParticle_def)
  have yr: "movedY defaultProps rightEdgeParticle = 300.24"
    by (simp add: movedY_def defaultProps_def rightEdgeParticle_def)
  have yl: "movedY defaultProps leftEdgeParticle = 300.24"
    by (simp add: movedY_def defaultProps_def leftEdgeParticle_def)
  have rb: "radius bottomParticle = 0.5" "radius rightEdgeParticle = 0.5"
      "radius leftEdgeParticle = 0.5"
    by (simp_all add: bottomParticle_def rightEdgeParticle_def leftEdgeParticle_def)
  have sr: "\<bar>sway rightEdgeParticle\<bar> \<le> 0.24"
    using sway_bound [of rightEdgeParticle] by (simp add: rightEdgeParticle_def)
  have sl: "\<bar>sway leftEdgeParticle\<bar> \<le> 0.24"
    using sway_bound [of leftEdgeParticle] by (simp add: leftEdgeParticle_def)
  have xr: "movedX 1.0 1.0 rightEdgeParticle > 800 + radius rightEdgeParticle"
    using sr by (simp add: movedX_def rightEdgeParticle_def)
  have xl: "movedX 1.0 (- 1.0) leftEdgeParticle < - radius leftEdgeParticle"
    using sl by (simp add: movedX_def leftEdgeParticle_def)
  have k: "reentries defaultProps 600 [] = 0"
      "reentries defaultProps 600 [bottomParticle] = Suc 0"
      "reentries defaultProps 600 [bottomParticle, rightEdgeParticle] = Suc 0"
      "reentries defaultProps 600 [leftEdgeParticle] = 0"
    by (simp_all add: reentries_def yb yr yl rb)
  have d: "harmonicDraws 0 = 1 / 2" "harmonicDraws (Suc 0) = 1 / 3"
    by (simp_all add: harmonicDraws_def)
  note a = C1_wrap_bounds [OF valid_harmonicDraws _ _ h1, of 800 600 defaultProps "1.0" "1.0"]
  note b = C1_wrap_bounds [OF valid_harmonicDraws _ _ h2, of 800 600 defaultProps "1.0" "- 1.0"]
  have la: "length ?qs = 3" using a by (simp del: updateParticles.simps)
  have lb: "length ?ls = 1" using b by (simp del: updateParticles.simps)
  have w0: "wrapRel defaultProps 800 600 1.0 1.0 (1 / 2) bottomParticle (?qs ! 0)"
    using a [THEN conjunct2, rule_format, of 0]
    by (simp del: updateParticles.simps add: k d)
  have w1: "wrapRel defaultProps 800 600 1.0 1.0 (1 / 3) rightEdgeParticle (?qs ! 1)"
    using a [THEN conjunct2, rule_format, of 1]
    by (simp del: updateParticles.simps add: k d)
  have w2: "wrapRel defaultProps 800 600 1.0 1.0 (1 / 3) bottomParticle (?qs ! 2)"
    using a [THEN conjunct2, rule_format, of 2]
    by (simp del: updateParticles.simps add: k d)
  have wl: "wrapRel defaultProps 800 600 1.0 (- 1.0) (1 / 2) leftEdgeParticle (?ls ! 0)"
    using b [THEN conjunct2, rule_format, of 0]
    by (simp del: updateParticles.simps add: k d)
  have q0: "x (?qs ! 0) = 400 \<and> y (?qs ! 0) = - 0.5"
    using w0 unfolding wrapRel_def yb rb by simp
  have q1: "x (?qs ! 1) = - 0.5 \<and> y (?qs ! 1) = 300.24"
    using w1 xr unfolding wrapRel_def yr rb by simp
  have q2: "x (?qs ! 2) = 800 / 3 \<and> y (?qs ! 2) = - 0.5"
    using w2 unfolding wrapRel_def yb rb by simp
  have ql: "x (?ls ! 0) = 800.5 \<and> y (?ls ! 0) = 300.24"
    using wl xl unfolding wrapRel_def yl rb by simp
  have xs: "map x ?qs = [400, - 0.5, 800 / 3] \<and> map y ?qs = [- 0.5, 300.24, - 0.5]"
    using q0 q1 q2 by (subst (1 2) list3 [OF la]) simp
  have ls: "map x ?ls = [800.5] \<and> map y ?ls = [300.24]"
    using ql by (subst (1 2) list1 [OF lb]) simp
  from valid_harmonicDraws rads xs ls show ?thesis by simp
qed

text \<open>
  C1 as stated fails where snow rises: with \<open>speed = -10\<close> the particle that was at
  \<open>y = 0.1\<close> with \<open>vy = 0.2\<close> and radius \<open>0.5\<close> is at \<open>y = -1.9\<close> after one call, below
  \<open>-radius\<close>, and nothing brings it back.
\<close>

theorem C1_counterexample:
  "map y (fst (updateParticles (defaultProps\<lparr>speed := - 10\<rparr>) [risingParticle] 800 600 1.0 0.2
       (\<lambda>n. 1 / 2))) = [- 1.9] \<and>
   map radius (fst (updateParticles (defaultProps\<lparr>speed := - 10\<rparr>) [risingParticle] 800 600
       1.0 0.2 (\<lambda>n. 1 / 2))) = [0.5] \<and>
   (- 1.9 :: real) < - 0.5"
  by (simp add: case_prod_beta updateParticle_y updateParticle_radius movedY_def
      defaultProps_def risingParticle_def)

section \<open>Advancing particles at rest\<close>

text \<open>
  C3, as the code has it. With \<open>currentWind = 0\<close> and \<open>vx = vy = 0\<close> for all particles,
  \<open>updateParticles\<close> keeps the number of particles, advances each wobble phase by
  \<open>wobbleSpeed\<close> and leaves the fields set at creation alone. A particle that is not below
  the bottom edge keeps its \<open>y\<close>, and its \<open>x\<close> moves by the sum of the two sway terms,
  then wraps at the horizontal edges like any \<open>x\<close>; where it does not wrap, the position
  is unchanged exactly when the two sway terms sum to zero, which they do when
  \<open>swayAmplitude = 0\<close>. A particle that is below the bottom edge re-enters from the top
  at \<open>x = Math.random() * width\<close>, with the next draw of the stream.
\<close>

theorem C3_rest_moves_by_sway:
  assumes "\<forall>p \<in> set ps. vx p = 0 \<and> vy p = 0"
  shows "length (fst (updateParticles P ps w h wMult 0 g)) = length ps \<and>
         (\<forall>i < length ps.
            restRel w h (g (reentries P h (take i ps))) (ps ! i)
              (fst (updateParticles P ps w h wMult 0 g) ! i))"
proof -
  have "restRel w h (g (reentries P h (take i ps))) (ps ! i)
          (fst (updateParticles P ps w h wMult 0 g) ! i)" if i: "i < length ps" for i
  proof -
    let ?g = "\<lambda>n. g (n + reentries P h (take i ps))"
    have v: "vx (ps ! i) = 0" "vy (ps ! i) = 0" using assms i by simp_all
    have "restRel w h (?g 0) (ps ! i) (fst (updateParticle P w h wMult 0 (ps ! i) ?g))"
      using v by (rule updateParticle_restRel)
    then show ?thesis unfolding updateParticles_nth [OF i] by simp
  qed
  then show ?thesis by (simp add: length_updateParticles)
qed

lemma sway_swayingParticle: "0.4 \<le> sway swayingParticle \<and> sway swayingParticle \<le> 0.6"
proof -
  define c where "c = cos ((pi / 2) * 1.8 + 300 * 0.01)"
  have c: "- 1 \<le> c" "c \<le> 1" by (simp_all add: c_def)
  have "sway swayingParticle = 0.5 + c * 0.1"
    by (simp add: sway_def primarySway_def secondarySway_def swayingParticle_def c_def)
  then show ?thesis using c by simp
qed

lemma sway_balancedParticle: "sway balancedParticle = 0"
  by (simp add: sway_def primarySway_def secondarySway_def balancedParticle_def)

text \<open>
  Three particles without velocity on an 800 by 600 surface: one that sways, which moves
  by its sway of at least 0.4; one whose two sway terms cancel, which stays where it is
  although its sway amplitude is 0.5; and one without sway, which stays where it is.
\<close>

theorem C3_witness:
  "vx swayingParticle = 0 \<and> vy swayingParticle = 0 \<and>
   vx balancedParticle = 0 \<and> vy balancedParticle = 0 \<and>
   vx stillParticle = 0 \<and> vy stillParticle = 0 \<and>
   map x [swayingParticle, balancedParticle, stillParticle] = [400, 400, 400] \<and>
   map y [swayingParticle, balancedParticle, stillParticle] = [300, 50 * pi, 300] \<and>
   map x (fst (updateParticles defaultProps [swayingParticle, balancedParticle, stillParticle]
                 800 600 1.0 0 harmonicDraws)) = [400 + sway swayingParticle, 400, 400] \<and>
   map y (fst (updateParticles defaultProps [swayingParticle, balancedParticle, stillParticle]
                 800 600 1.0 0 harmonicDraws)) = [300, 50 * pi, 300] \<and>
   map wobble (fst (updateParticles defaultProps [swayingParticle, balancedParticle,
                 stillParticle] 800 600 1.0 0 harmonicDraws)) = [pi / 2, 0, 0.01] \<and>
   0.4 \<le> sway swayingParticle \<and> swayAmplitude balancedParticle = 0.5"
proof -
  let ?ps = "[swayingParticle, balancedParticle, stillParticle]"
  let ?qs = "fst (updateParticles defaultProps ?ps 800 600 1.0 0 harmonicDraws)"
  have vel: "vx swayingParticle = 0 \<and> vy swayingParticle = 0 \<and>
      vx balancedParticle = 0 \<and> vy balancedParticle = 0 \<and>
      vx stillParticle = 0 \<and> vy stillParticle = 0"
    by (simp add: swayingParticle_def balancedParticle_def stillParticle_def)
  then have h: "\<forall>p \<in> set ?ps. vx p = 0 \<and> vy p = 0" by simp
  note a = C3_rest_moves_by_sway [OF h, of defaultProps 800 600 "1.0" harmonicDraws]
  have la: "length ?qs = 3" using a by (simp del: updateParticles.simps)
  have r0: "\<exists>r. restRel 800 600 r swayingParticle (?qs ! 0)"
    using a [THEN conjunct2, rule_format, of 0]
    by (auto simp del: updateParticles.simps)
  have r1: "\<exists>r. restRel 800 600 r balancedParticle (?qs ! 1)"
    using a [THEN conjunct2, rule_format, of 1]
    by (auto simp del: updateParticles.simps)
  have r2: "\<exists>r. restRel 800 600 r stillParticle (?qs ! 2)"
    using a [THEN conjunct2, rule_format, of 2]
    by (auto simp del: updateParticles.simps)
  have p50: "50 * pi \<le> 601" using pi_less_4 by simp
  have old: "map x ?ps = [400, 400, 400] \<and> map y ?ps = [300, 50 * pi, 300]"
    by (simp add: swayingParticle_def balancedParticle_def stillParticle_def)
  have q0: "x (?qs ! 0) = 400 + sway swayingParticle \<and> y (?qs ! 0) = 300 \<and>
      wobble (?qs ! 0) = pi / 2"
    using r0 sway_swayingParticle unfolding restRel_def
    by (simp add: swayingParticle_def)
  have q1: "x (?qs ! 1) = 400 \<and> y (?qs ! 1) = 50 * pi \<and> wobble (?qs ! 1) = 0"
    using r1 p50 unfolding restRel_def sway_balancedParticle
    by (simp add: balancedParticle_def)
  have q2: "x (?qs ! 2) = 400 \<and> y (?qs ! 2) = 300 \<and> wobble (?qs ! 2) = 0.01"
    using r2 sway_zero [of stillParticle] unfolding restRel_def
    by (simp add: stillParticle_def)
  have res: "map x ?qs = [400 + sway swayingParticle, 400, 400] \<and>
      map y ?qs = [300, 50 * pi, 300] \<and> map wobble ?qs = [pi / 2, 0, 0.01]"
    using q0 q1 q2 by (subst (1 2 3) list3 [OF la]) simp
  have amp: "swayAmplitude balancedParticle = 0.5" by (simp add: balancedParticle_def)
  from vel old res sway_swayingParticle amp show ?thesis by simp
qed

text \<open>
  C3 as stated fails for a particle that sways: without wind and velocity, the particle
  at \<open>x = 400\<close> with sway amplitude \<open>0.5\<close> is not at \<open>x = 400\<close> after the call.
\<close>

theorem C3_counterexample:
  "vx swayingParticle = 0 \<and> vy swayingParticle = 0 \<and> map x [swayingParticle] = [400] \<and>
   map x (fst (updateParticles defaultProps [swayingParticle] 800 600 1.0 0 (\<lambda>n. 1 / 2)))
     \<noteq> [400]"
proof -
  define c where "c = cos ((pi / 2) * 1.8 + 300 * 0.01)"
  have c: "- 1 \<le> c" "c \<le> 1" by (simp_all add: c_def)
  have sw: "sway swayingParticle = 0.5 + c * 0.1"
    by (simp add: sway_def primarySway_def secondarySway_def swayingParticle_def c_def)
  have mx: "movedX 1.0 0 swayingParticle = 400 + (0.5 + c * 0.1)"
    by (simp add: movedX_def sw) (simp add: swayingParticle_def)
  have my: "movedY defaultProps swayingParticle = 300"
    by (simp add: movedY_def swayingParticle_def)
  have rad: "radius swayingParticle = 1" by (simp add: swayingParticle_def)
  have "x (fst (updateParticle defaultProps 800 600 1.0 0 swayingParticle (\<lambda>n. 1 / 2)))
      = 400 + (0.5 + c * 0.1)"
    unfolding updateParticle_x mx my rad Let_def using c by simp
  moreover have "400 + (0.5 + c * 0.1) \<noteq> (400::real)" using c by simp
  ultimately have "map x (fst (updateParticles defaultProps [swayingParticle] 800 600 1.0 0
      (\<lambda>n. 1 / 2))) \<noteq> [400]"
    by (simp add: case_prod_beta)
  then show ?thesis by (simp add: swayingParticle_def)
qed

section \<open>Polygon shapes on both backends\<close>

lemma fract_range: "0 \<le> fract v \<and> fract v < 1"
  unfolding fract_def by linarith

lemma hash_range: "0 \<le> hash n \<and> hash n < 1"
  unfolding hash_def by (rule fract_range)

lemma floor_draw_times_4:
  assumes "0 \<le> (r::real)" and "r < 1"
  shows "0 \<le> \<lfloor>r * 4\<rfloor> \<and> \<lfloor>r * 4\<rfloor> \<le> 3"
proof -
  have "0 \<le> r * 4" "r * 4 < 4" using assms by simp_all
  then show ?thesis by linarith
qed

lemma numPoints_range: "5 \<le> numPoints seed \<and> numPoints seed \<le> 8"
  using hash_range [of "seed * 3.7"] floor_draw_times_4 [of "hash (seed * 3.7)"]
  by (simp add: numPoints_def glsl_int_def)

lemma length_createIrregularShape:
  "length (fst (createIrregularShape rad rough g)) = nat (5 + \<lfloor>g 0 * 4\<rfloor>)"
  by (simp add: createIrregularShape_def Math_random_def Let_def length_shapeLoop)

lemma nth_createIrregularShape:
  assumes "i < length (fst (createIrregularShape rad rough g))"
  shows "fst (createIrregularShape rad rough g) ! i
           = shapeVertex i (5 + \<lfloor>g 0 * 4\<rfloor>) rad rough (g (Suc i))"
proof -
  have "i < nat (5 + \<lfloor>g 0 * 4\<rfloor>)" using assms by (simp add: length_createIrregularShape)
  then show ?thesis
    by (simp add: createIrregularShape_def Math_random_def Let_def nth_shapeLoop)
qed

lemma hash_0: "hash 0 = 0"
  by (simp add: hash_def fract_def)

text \<open>
  C8. For every shape seed and roughness, the shader's vertex count
  \<open>5 + int(hash(seed * 3.7) * 4.0)\<close> and the vertex count of \<open>createIrregularShape\<close>,
  \<open>5 + floor(Math.random() * 4)\<close>, are the same function of their draw (the hash value
  \<open>hash(seed * 3.7)\<close>, resp. the first draw of the stream) and both lie in \<open>[5, 8]\<close>.
  Vertex \<open>i\<close> of the shader's \<open>getVertex\<close> and offset \<open>i\<close> of \<open>createIrregularShape\<close> sit at
  their angular step with a radius (0.38 of the sprite on the GPU, the particle's radius
  on the CPU) scaled by the same variance \<open>1 + (r - 0.5) * roughness\<close>, where \<open>r\<close> is the
  hash value \<open>hash(seed + i * 7.31)\<close> on the GPU and the draw that follows the first
  \<open>i + 1\<close> draws of the stream on the CPU; both are in \<open>[0, 1)\<close>.
\<close>

theorem C8_shape_equivalence:
  assumes "valid_rng g"
  shows "numPoints seed = spec_vertexCount (hash (seed * 3.7)) \<and>
         int (length (fst (createIrregularShape rad rough g))) = spec_vertexCount (g 0) \<and>
         5 \<le> numPoints seed \<and> numPoints seed \<le> 8 \<and>
         5 \<le> length (fst (createIrregularShape rad rough g)) \<and>
         length (fst (createIrregularShape rad rough g)) \<le> 8 \<and>
         (\<forall>i n. 0 \<le> hash (seed + real_of_int i * 7.31) \<and> hash (seed + real_of_int i * 7.31) < 1 \<and>
            getVertex i n seed rough =
              (cos ((real_of_int i / real_of_int n) * 6.28318530718) * 0.38
                 * spec_variance (hash (seed + real_of_int i * 7.31)) rough,
               sin ((real_of_int i / real_of_int n) * 6.28318530718) * 0.38
                 * spec_variance (hash (seed + real_of_int i * 7.31)) rough)) \<and>
         (\<forall>i < length (fst (createIrregularShape rad rough g)).
            0 \<le> g (Suc i) \<and> g (Suc i) < 1 \<and>
            fst (createIrregularShape rad rough g) ! i =
              (cos ((real i / real (length (fst (createIrregularShape rad rough g)))) * pi * 2)
                 * rad * spec_variance (g (Suc i)) rough,
               sin ((real i / real (length (fst (createIrregularShape rad rough g)))) * pi * 2)
                 * rad * spec_variance (g (Suc i)) rough))"
proof -
  have g0: "0 \<le> g 0" "g 0 < 1" using assms by (simp_all add: valid_rng_def)
  have fl: "0 \<le> \<lfloor>g 0 * 4\<rfloor> \<and> \<lfloor>g 0 * 4\<rfloor> \<le> 3" using g0 by (rule floor_draw_times_4)
  have len: "length (fst (createIrregularShape rad rough g)) = nat (5 + \<lfloor>g 0 * 4\<rfloor>)"
    by (rule length_createIrregularShape)
  have cpu_exact: "int (length (fst (createIrregularShape rad rough g))) = spec_vertexCount (g 0)"
    unfolding len spec_vertexCount_def using fl by simp
  have gpu_exact: "numPoints seed = spec_vertexCount (hash (seed * 3.7))"
    using hash_range [of "seed * 3.7"]
    by (simp add: numPoints_def glsl_int_def spec_vertexCount_def)
  have cpu_count: "5 \<le> length (fst (createIrregularShape rad rough g)) \<and>
      length (fst (createIrregularShape rad rough g)) \<le> 8"
    unfolding len using fl by linarith
  have pts: "real_of_int (5 + \<lfloor>g 0 * 4\<rfloor>) = real (nat (5 + \<lfloor>g 0 * 4\<rfloor>))"
    using fl by simp
  have gpu: "0 \<le> hash (seed + real_of_int i * 7.31) \<and> hash (seed + real_of_int i * 7.31) < 1 \<and>
            getVertex i n seed rough =
              (cos ((real_of_int i / real_of_int n) * 6.28318530718) * 0.38
                 * spec_variance (hash (seed + real_of_int i * 7.31)) rough,
               sin ((real_of_int i / real_of_int n) * 6.28318530718) * 0.38
                 * spec_variance (hash (seed + real_of_int i * 7.31)) rough)"
    for i n
    using hash_range [of "seed + real_of_int i * 7.31"]
    by (simp add: getVertex_def Let_def spec_variance_def)
  have cpu: "0 \<le> g (Suc i) \<and> g (Suc i) < 1 \<and>
            fst (createIrregularShape rad rough g) ! i =
              (cos ((real i / real (length (fst (createIrregularShape rad rough g)))) * pi * 2)
                 * rad * spec_variance (g (Suc i)) rough,
               sin ((real i / real (length (fst (createIrregularShape rad rough g)))) * pi * 2)
                 * rad * spec_variance (g (Suc i)) rough)"
    if "i < length (fst (createIrregularShape rad rough g))" for i
  proof -
    have r: "0 \<le> g (Suc i)" "g (Suc i) < 1" using assms by (simp_all add: valid_rng_def)
    have "fst (createIrregularShape rad rough g) ! i
           = shapeVertex i (5 + \<lfloor>g 0 * 4\<rfloor>) rad rough (g (Suc i))"
      using that by (rule nth_createIrregularShape)
    also have "\<dots> = (cos ((real i / real (length (fst (createIrregularShape rad rough g)))) * pi * 2)
                 * rad * spec_variance (g (Suc i)) rough,
               sin ((real i / real (length (fst (createIrregularShape rad rough g)))) * pi * 2)
                 * rad * spec_variance (g (Suc i)) rough)"
      unfolding len shapeVertex_def Let_def spec_variance_def pts by simp
    finally show ?thesis using r by blast
  qed
  from gpu_exact cpu_exact numPoints_range [of seed] cpu_count gpu cpu show ?thesis by blast
qed

text \<open>
  Seed 0 on the GPU: five vertices, and vertex 0 has variance \<open>1 + (0 - 0.5) * 0.9\<close>. The
  draws \<open>1/2, 1/3, ...\<close> on the CPU: seven vertices, and offset 0 has variance
  \<open>1 + (1/3 - 0.5) * 0.9\<close>.
\<close>

theorem C8_witness:
  "valid_rng harmonicDraws \<and> numPoints 0 = 5 \<and>
   length (fst (createIrregularShape 1 0.9 harmonicDraws)) = 7 \<and>
   getVertex 0 5 0 0.9 = (0.38 * 0.55, 0) \<and>
   fst (createIrregularShape 1 0.9 harmonicDraws) ! 0 = (0.85, 0)"
proof -
  note inst = C8_shape_equivalence [OF valid_harmonicDraws, of 0 1 "0.9"]
  have n0: "numPoints 0 = 5"
    using inst by (simp add: hash_0 spec_vertexCount_def)
  have len: "length (fst (createIrregularShape 1 0.9 harmonicDraws)) = 7"
    using inst by (simp add: spec_vertexCount_def harmonicDraws_def)
  have gv: "getVertex 0 5 0 0.9 = (0.38 * 0.55, 0)"
    using inst [THEN conjunct2, THEN conjunct2, THEN conjunct2, THEN conjunct2,
        THEN conjunct2, THEN conjunct2, THEN conjunct1, rule_format, of 0 5]
    by (simp add: hash_0 spec_variance_def)
  have "0 < length (fst (createIrregularShape 1 0.9 harmonicDraws))" using len by simp
  then have cv: "fst (createIrregularShape 1 0.9 harmonicDraws) ! 0 = (0.85, 0)"
    using inst len by (simp add: spec_variance_def harmonicDraws_def)
  from valid_harmonicDraws n0 len gv cv show ?thesis by blast
qed

section \<open>Gust envelope\<close>

text \<open>
  The code's envelope is the specification's with the duration fixed at 3, whatever
  duration was drawn; the state does not keep the drawn duration.
\<close>

lemma gustFactor_fixed_duration:
  "gustFactor st =
     (if gustTime st > 0
      then spec_gustContribution (gustTime st) 3 (gustStrength st) (gustDirection st) else 0)"
  by (simp add: gustFactor_def spec_gustContribution_def mult.commute)

lemma sin_gust: "sin ((4.5 / 3) * pi) = - 1"
  using sin_3over2_pi by simp

text \<open>
  C2 at a gust of 4.5 seconds. From the initial wind state, with draws that start a gust
  of strength 1, direction \<open>+1\<close> and duration 4.5 on the first call, \<open>getDynamicWind\<close>
  leaves 4.5 seconds remaining and adds the gust contribution \<open>sin(4.5 / 3 \<sqdot> \<pi>) = -1\<close>
  to the multiplier: full strength against the gust's direction on its first frame. The
  envelope of the specification, \<open>sin(\<pi> \<sqdot> remaining / duration) \<sqdot> strength \<sqdot> direction\<close>,
  is 0 there.
\<close>

theorem C2_gust_start_against_direction:
  "valid_rng gustDraws \<and>
   fst (snd (getDynamicWind 0.2 initialWind gustDraws))
     = \<lparr>time = 0.016, gustTime = 4.5, gustStrength = 1, gustDirection = 1\<rparr> \<and>
   gustFactor (fst (snd (getDynamicWind 0.2 initialWind gustDraws))) = - 1 \<and>
   fst (getDynamicWind 0.2 initialWind gustDraws)
     = 0.2 * (1 + sin (0.016 * 0.05) * 0.7 + sin (0.016 * 0.15) * 0.3 + sin (0.016 * 0.8) * 0.1
              + (- 1)) \<and>
   spec_gustContribution 4.5 4.5 1 1 = 0"
proof -
  have v: "valid_rng gustDraws" by (simp add: valid_rng_def gustDraws_def)
  have sg: "startGust \<lparr>time = 0.016, gustTime = - 0.016, gustStrength = 0, gustDirection = 1\<rparr>
      gustDraws
      = (\<lparr>time = 0.016, gustTime = 4.5, gustStrength = 1, gustDirection = 1\<rparr>,
         \<lambda>n. gustDraws (Suc (Suc (Suc (Suc n)))))"
    by (simp add: startGust_def Math_random_def gustDraws_def)
  have gf: "gustFactor \<lparr>time = 0.016, gustTime = 4.5, gustStrength = 1, gustDirection = 1\<rparr> = - 1"
    using sin_gust by (simp add: gustFactor_def)
  have st: "fst (snd (getDynamicWind 0.2 initialWind gustDraws))
     = \<lparr>time = 0.016, gustTime = 4.5, gustStrength = 1, gustDirection = 1\<rparr>"
    using sg by (simp add: getDynamicWind_def initialWind_def Let_def)
  have w: "fst (getDynamicWind 0.2 initialWind gustDraws)
     = 0.2 * (1 + sin (0.016 * 0.05) * 0.7 + sin (0.016 * 0.15) * 0.3 + sin (0.016 * 0.8) * 0.1
              + (- 1))"
    using sg gf by (simp add: getDynamicWind_def initialWind_def Let_def)
  have sp: "spec_gustContribution 4.5 4.5 1 1 = 0"
    by (simp add: spec_gustContribution_def)
  show ?thesis using v st gf w sp by simp
qed

section \<open>Committing a resize\<close>

lemma initParticles_lengths:
  "length (back_layer (fst (initParticles P w h g))) = nat \<lfloor>density P * 0.8\<rfloor> \<and>
   length (mid_layer (fst (initParticles P w h g))) = nat \<lfloor>density P * 0.5\<rfloor> \<and>
   length (front_layer (fst (initParticles P w h g)))
     = nat (max 5 \<lfloor>density P * 0.1\<rfloor>) + nat (max 2 \<lfloor>density P * 0.004\<rfloor>)"
  using initParticles_layers [of P w h g] by auto

lemma applyResize_missing: "refsMissing S \<Longrightarrow> applyResize P H w h S = S"
  by (simp add: applyResize_def)

lemma applyResize_stable:
  "\<not> refsMissing S \<Longrightarrow> stableDimensionsRef (applyResize P H w h S) = (w, h)"
  by (simp add: applyResize_def Let_def case_prod_beta)

lemma applyResize_canvases:
  "\<not> refsMissing S \<Longrightarrow> canvasRefs (applyResize P H w h S)
     = \<lparr>back_layer = Some (setCanvasDimension 300 w, setCanvasDimension 150 h),
        mid_layer = Some (setCanvasDimension 300 w, setCanvasDimension 150 h),
        front_layer = Some (setCanvasDimension 300 w, setCanvasDimension 150 h)\<rparr>"
  by (simp add: applyResize_def Let_def case_prod_beta)

lemma setCanvasDimension_nat:
  "n \<le> 2147483647 \<Longrightarrow> setCanvasDimension dflt (real n) = real n"
  by (simp add: setCanvasDimension_def toUint32_def)

lemma setCanvasDimension_negative:
  assumes "- 2147483648 \<le> v" and "v \<le> - 1"
  shows "setCanvasDimension dflt v = dflt"
proof -
  define c where "c = \<lceil>v\<rceil>"
  have c: "- 2147483648 \<le> c" "c \<le> - 1"
    using assms unfolding c_def by (simp_all add: le_ceiling_iff ceiling_le_iff)
  have "c mod 4294967296 = (c + 4294967296) mod 4294967296" by simp
  also have "\<dots> = c + 4294967296" using c by (intro mod_pos_pos_trivial) simp_all
  finally have "toUint32 v = c + 4294967296"
    using assms by (simp add: toUint32_def c_def)
  then show ?thesis using c by (simp add: setCanvasDimension_def)
qed

lemma handleResize_scrolling:
  "isScrollingRef S \<and> mobile H \<Longrightarrow> handleResize P H S = S"
  by (simp add: handleResize_def split: option.splits)

lemma applyResize_particles:
  "\<not> refsMissing S \<Longrightarrow>
     particlesRef (applyResize P H w h S) = fst (initParticles P w h (mathRandom S))"
  by (simp add: applyResize_def Let_def case_prod_beta)

lemma applyResize_console:
  "\<not> refsMissing S \<Longrightarrow>
     console (applyResize P H w h S) = console S @
       [if useWebGL P
        then (if glAvailable H then ''Snowfall: Using WebGL renderer''
              else ''Snowfall: WebGL init failed, using Canvas fallback'')
        else ''Snowfall: Using Canvas 2D renderer'']"
  by (simp add: applyResize_def Let_def case_prod_beta initWebGL_def)

lemma applyResize_webgl:
  "\<not> refsMissing S \<Longrightarrow> useWebGL P \<Longrightarrow>
     webglStateRef (applyResize P H w h S)
       = \<lparr>back_layer = initWebGL H, mid_layer = initWebGL H, front_layer = initWebGL H\<rparr>"
  by (simp add: applyResize_def Let_def case_prod_beta)

lemma handleResize_uninitialised:
  "containerRef S = Some (cw, ch) \<Longrightarrow> \<not> (isScrollingRef S \<and> mobile H) \<Longrightarrow>
   fst (stableDimensionsRef S) = 0 \<or> snd (stableDimensionsRef S) = 0 \<Longrightarrow>
   handleResize P H S = applyResize P H cw ch S"
  by (auto simp: handleResize_def Let_def)

lemma fresh_refs: "\<not> refsMissing (freshSnowfall cw ch)"
  by (simp add: refsMissing_def freshSnowfall_def)

text \<open>
  C4, as the code has it. \<open>applyResize\<close> is a no-op when the container or one of the
  three canvases is missing, and only then. Otherwise, for every width and height, zero
  and negative ones included, it records the dimensions as the stable ones, assigns them
  to the width and height of the three canvases, reinitializes the three WebGL states
  when WebGL is used, writes one line to the console and regenerates all three layers
  with their usual counts. The assignment gives a canvas the size itself when width and
  height are non-negative integers up to \<open>2^31 - 1\<close>, as \<open>clientWidth\<close> and
  \<open>clientHeight\<close> are, and its default of 300 resp. 150 when they are negative (from
  \<open>-1\<close> down to \<open>-2^31\<close>). When the recorded stable width or height is 0 and the
  container is there, \<open>handleResize\<close> commits at once with whatever the container
  measures, unless a scroll is in progress on a mobile host; while one is, \<open>handleResize\<close>
  does nothing.
\<close>

theorem C4_resize_commit:
  "(refsMissing S \<longrightarrow> applyResize P H w h S = S) \<and>
   (\<not> refsMissing S \<longrightarrow>
      stableDimensionsRef (applyResize P H w h S) = (w, h) \<and>
      canvasRefs (applyResize P H w h S)
        = \<lparr>back_layer = Some (setCanvasDimension 300 w, setCanvasDimension 150 h),
           mid_layer = Some (setCanvasDimension 300 w, setCanvasDimension 150 h),
           front_layer = Some (setCanvasDimension 300 w, setCanvasDimension 150 h)\<rparr> \<and>
      particlesRef (applyResize P H w h S) = fst (initParticles P w h (mathRandom S)) \<and>
      length (back_layer (particlesRef (applyResize P H w h S))) = nat \<lfloor>density P * 0.8\<rfloor> \<and>
      length (mid_layer (particlesRef (applyResize P H w h S))) = nat \<lfloor>density P * 0.5\<rfloor> \<and>
      length (front_layer (particlesRef (applyResize P H w h S)))
        = nat (max 5 \<lfloor>density P * 0.1\<rfloor>) + nat (max 2 \<lfloor>density P * 0.004\<rfloor>) \<and>
      length (console (applyResize P H w h S)) = Suc (length (console S)) \<and>
      (useWebGL P \<longrightarrow>
         webglStateRef (applyResize P H w h S)
           = \<lparr>back_layer = initWebGL H, mid_layer = initWebGL H, front_layer = initWebGL H\<rparr>)) \<and>
   (\<forall>m n. m \<le> 2147483647 \<and> n \<le> 2147483647 \<longrightarrow>
      (setCanvasDimension 300 (real m), setCanvasDimension 150 (real n)) = (real m, real n)) \<and>
   (- 2147483648 \<le> w \<and> w \<le> - 1 \<longrightarrow> setCanvasDimension 300 w = 300) \<and>
   (- 2147483648 \<le> h \<and> h \<le> - 1 \<longrightarrow> setCanvasDimension 150 h = 150) \<and>
   (containerRef S = Some (cw, ch) \<and> \<not> (isScrollingRef S \<and> mobile H) \<and>
    (fst (stableDimensionsRef S) = 0 \<or> snd (stableDimensionsRef S) = 0) \<longrightarrow>
      handleResize P H S = applyResize P H cw ch S) \<and>
   (isScrollingRef S \<and> mobile H \<longrightarrow> handleResize P H S = S)"
proof -
  have a: "refsMissing S \<longrightarrow> applyResize P H w h S = S"
    by (simp add: applyResize_missing)
  have b: "\<not> refsMissing S \<longrightarrow>
      stableDimensionsRef (applyResize P H w h S) = (w, h) \<and>
      canvasRefs (applyResize P H w h S)
        = \<lparr>back_layer = Some (setCanvasDimension 300 w, setCanvasDimension 150 h),
           mid_layer = Some (setCanvasDimension 300 w, setCanvasDimension 150 h),
           front_layer = Some (setCanvasDimension 300 w, setCanvasDimension 150 h)\<rparr> \<and>
      particlesRef (applyResize P H w h S) = fst (initParticles P w h (mathRandom S)) \<and>
      length (back_layer (particlesRef (applyResize P H w h S))) = nat \<lfloor>density P * 0.8\<rfloor> \<and>
      length (mid_layer (particlesRef (applyResize P H w h S))) = nat \<lfloor>density P * 0.5\<rfloor> \<and>
      length (front_layer (particlesRef (applyResize P H w h S)))
        = nat (max 5 \<lfloor>density P * 0.1\<rfloor>) + nat (max 2 \<lfloor>density P * 0.004\<rfloor>) \<and>
      length (console (applyResize P H w h S)) = Suc (length (console S)) \<and>
      (useWebGL P \<longrightarrow>
         webglStateRef (applyResize P H w h S)
           = \<lparr>back_layer = initWebGL H, mid_layer = initWebGL H, front_layer = initWebGL H\<rparr>)"
    using initParticles_lengths [of P w h "mathRandom S"]
    by (simp add: applyResize_stable applyResize_canvases applyResize_particles
        applyResize_console applyResize_webgl)
  have c: "containerRef S = Some (cw, ch) \<and> \<not> (isScrollingRef S \<and> mobile H) \<and>
    (fst (stableDimensionsRef S) = 0 \<or> snd (stableDimensionsRef S) = 0) \<longrightarrow>
      handleResize P H S = applyResize P H cw ch S"
    using handleResize_uninitialised [of S cw ch H P] by blast
  have d: "\<forall>m n. m \<le> 2147483647 \<and> n \<le> 2147483647 \<longrightarrow>
      (setCanvasDimension 300 (real m), setCanvasDimension 150 (real n)) = (real m, real n)"
    by (simp add: setCanvasDimension_nat)
  have e: "(- 2147483648 \<le> w \<and> w \<le> - 1 \<longrightarrow> setCanvasDimension 300 w = 300) \<and>
      (- 2147483648 \<le> h \<and> h \<le> - 1 \<longrightarrow> setCanvasDimension 150 h = 150)"
    by (simp add: setCanvasDimension_negative)
  have f: "isScrollingRef S \<and> mobile H \<longrightarrow> handleResize P H S = S"
    using handleResize_scrolling [of S H P] by blast
  from a b c d e f show ?thesis by blast
qed

text \<open>
  An instance without container, where the commit does nothing; a fresh instance in an
  800 by 600 container, committed at 1024 by 768, at \<open>-5\<close> by \<open>-5\<close> (which leaves the
  canvases at 300 by 150) and through \<open>handleResize\<close>; and a fresh instance in a 0 by 0
  container on a mobile host during a scroll, which \<open>handleResize\<close> leaves alone.
\<close>

theorem C4_witness:
  "refsMissing unmountedSnowfall \<and>
   applyResize webglProps desktopHost 1024 768 unmountedSnowfall = unmountedSnowfall \<and>
   \<not> refsMissing (freshSnowfall 800 600) \<and> useWebGL webglProps \<and>
   stableDimensionsRef (applyResize webglProps desktopHost 1024 768 (freshSnowfall 800 600))
     = (1024, 768) \<and>
   length (back_layer (particlesRef
     (applyResize webglProps desktopHost 1024 768 (freshSnowfall 800 600)))) = 960 \<and>
   length (console (applyResize webglProps desktopHost 1024 768 (freshSnowfall 800 600))) = 1 \<and>
   back_layer (webglStateRef (applyResize webglProps desktopHost 1024 768 (freshSnowfall 800 600)))
     = Some \<lparr>isMobile = False\<rparr> \<and>
   back_layer (canvasRefs (applyResize webglProps desktopHost 1024 768 (freshSnowfall 800 600)))
     = Some (1024, 768) \<and>
   back_layer (canvasRefs (applyResize webglProps desktopHost (- 5) (- 5)
     (freshSnowfall 800 600))) = Some (300, 150) \<and>
   handleResize webglProps desktopHost (freshSnowfall 800 600)
     = applyResize webglProps desktopHost 800 600 (freshSnowfall 800 600) \<and>
   isScrollingRef scrollingSnowfall \<and> mobile mobileHost \<and>
   stableDimensionsRef scrollingSnowfall = (0, 0) \<and>
   handleResize webglProps mobileHost scrollingSnowfall = scrollingSnowfall"
proof -
  have m: "refsMissing unmountedSnowfall"
    by (simp add: refsMissing_def unmountedSnowfall_def)
  have u: "useWebGL webglProps" by (simp add: webglProps_def)
  have d: "density webglProps = 1200" by (simp add: webglProps_def defaultProps_def)
  have f: "containerRef (freshSnowfall 800 600) = Some (800, 600) \<and>
      \<not> (isScrollingRef (freshSnowfall 800 600) \<and> mobile desktopHost) \<and>
      (fst (stableDimensionsRef (freshSnowfall 800 600)) = 0 \<or>
       snd (stableDimensionsRef (freshSnowfall 800 600)) = 0)"
    by (simp add: freshSnowfall_def)
  have c: "console (freshSnowfall 800 600) = []" by (simp add: freshSnowfall_def)
  have i: "initWebGL desktopHost = Some \<lparr>isMobile = False\<rparr>"
    by (simp add: initWebGL_def desktopHost_def)
  have r1: "applyResize webglProps desktopHost 1024 768 unmountedSnowfall = unmountedSnowfall"
    using C4_resize_commit [of unmountedSnowfall webglProps desktopHost 1024 768 0 0] m
    by blast
  have r2: "stableDimensionsRef (applyResize webglProps desktopHost 1024 768
        (freshSnowfall 800 600)) = (1024, 768) \<and>
      length (back_layer (particlesRef
        (applyResize webglProps desktopHost 1024 768 (freshSnowfall 800 600))))
          = nat \<lfloor>density webglProps * 0.8\<rfloor> \<and>
      length (console (applyResize webglProps desktopHost 1024 768 (freshSnowfall 800 600)))
          = Suc (length (console (freshSnowfall 800 600))) \<and>
      webglStateRef (applyResize webglProps desktopHost 1024 768 (freshSnowfall 800 600))
           = \<lparr>back_layer = initWebGL desktopHost, mid_layer = initWebGL desktopHost,
              front_layer = initWebGL desktopHost\<rparr>"
    using C4_resize_commit [of "freshSnowfall 800 600" webglProps desktopHost 1024 768 800 600]
      u fresh_refs [of 800 600]
    by blast
  have r3: "handleResize webglProps desktopHost (freshSnowfall 800 600)
     = applyResize webglProps desktopHost 800 600 (freshSnowfall 800 600)"
    using C4_resize_commit [of "freshSnowfall 800 600" webglProps desktopHost 800 600 800 600] f
    by blast
  note big = C4_resize_commit [of "freshSnowfall 800 600" webglProps desktopHost 1024 768 800 600]
  have szall: "\<forall>m n. m \<le> 2147483647 \<and> n \<le> 2147483647 \<longrightarrow>
      (setCanvasDimension 300 (real m), setCanvasDimension 150 (real n)) = (real m, real n)"
    using big by blast
  have sz: "setCanvasDimension 300 1024 = 1024 \<and> setCanvasDimension 150 768 = 768"
    using szall [rule_format, of 1024 768] by simp
  have cv: "canvasRefs (applyResize webglProps desktopHost 1024 768 (freshSnowfall 800 600))
        = \<lparr>back_layer = Some (setCanvasDimension 300 1024, setCanvasDimension 150 768),
           mid_layer = Some (setCanvasDimension 300 1024, setCanvasDimension 150 768),
           front_layer = Some (setCanvasDimension 300 1024, setCanvasDimension 150 768)\<rparr>"
    using big fresh_refs [of 800 600] by blast
  have r4: "back_layer (canvasRefs (applyResize webglProps desktopHost 1024 768
      (freshSnowfall 800 600))) = Some (1024, 768)"
    unfolding cv using sz by simp
  note neg = C4_resize_commit [of "freshSnowfall 800 600" webglProps desktopHost "- 5" "- 5"
      800 600]
  have "(- 2147483648 \<le> (- 5 :: real) \<and> (- 5 :: real) \<le> - 1 \<longrightarrow>
          setCanvasDimension 300 (- 5) = 300) \<and>
      (- 2147483648 \<le> (- 5 :: real) \<and> (- 5 :: real) \<le> - 1 \<longrightarrow>
          setCanvasDimension 150 (- 5) = 150)"
    using neg by blast
  then have ng: "setCanvasDimension 300 (- 5) = 300 \<and> setCanvasDimension 150 (- 5) = 150"
    by simp
  have cn: "canvasRefs (applyResize webglProps desktopHost (- 5) (- 5) (freshSnowfall 800 600))
        = \<lparr>back_layer = Some (setCanvasDimension 300 (- 5), setCanvasDimension 150 (- 5)),
           mid_layer = Some (setCanvasDimension 300 (- 5), setCanvasDimension 150 (- 5)),
           front_layer = Some (setCanvasDimension 300 (- 5), setCanvasDimension 150 (- 5))\<rparr>"
    using neg fresh_refs [of 800 600] by blast
  have r5: "back_layer (canvasRefs (applyResize webglProps desktopHost (- 5) (- 5)
      (freshSnowfall 800 600))) = Some (300, 150)"
    unfolding cn using ng by simp
  have sc: "isScrollingRef scrollingSnowfall \<and> mobile mobileHost \<and>
      stableDimensionsRef scrollingSnowfall = (0, 0)"
    by (simp add: scrollingSnowfall_def freshSnowfall_def mobileHost_def)
  have r6: "handleResize webglProps mobileHost scrollingSnowfall = scrollingSnowfall"
    using C4_resize_commit [of scrollingSnowfall webglProps mobileHost 0 0 0 0] sc by blast
  show ?thesis
    using m u fresh_refs [of 800 600] r1 r2 r3 r4 r5 sc r6 by (simp add: d c i)
qed

text \<open>
  C4 as stated fails in a container that measures 0 by 0: the layout signal commits the
  resize, after which the instance has 960, 600 and 124 particles, three fresh WebGL
  states and a line on the console.
\<close>

theorem C4_counterexample:
  "containerRef (freshSnowfall 0 0) = Some (0, 0) \<and>
   particlesRef (freshSnowfall 0 0) = \<lparr>back_layer = [], mid_layer = [], front_layer = []\<rparr> \<and>
   length (back_layer (particlesRef (handleResize webglProps desktopHost (freshSnowfall 0 0))))
     = 960 \<and>
   length (mid_layer (particlesRef (handleResize webglProps desktopHost (freshSnowfall 0 0))))
     = 600 \<and>
   length (front_layer (particlesRef (handleResize webglProps desktopHost (freshSnowfall 0 0))))
     = 124 \<and>
   webglStateRef (freshSnowfall 0 0)
     = \<lparr>back_layer = None, mid_layer = None, front_layer = None\<rparr> \<and>
   webglStateRef (handleResize webglProps desktopHost (freshSnowfall 0 0))
     = \<lparr>back_layer = Some \<lparr>isMobile = False\<rparr>, mid_layer = Some \<lparr>isMobile = False\<rparr>,
        front_layer = Some \<lparr>isMobile = False\<rparr>\<rparr> \<and>
   console (handleResize webglProps desktopHost (freshSnowfall 0 0))
     = [''Snowfall: Using WebGL renderer''] \<and>
   handleResize webglProps desktopHost (freshSnowfall 0 0) \<noteq> freshSnowfall 0 0"
proof -
  have hr: "handleResize webglProps desktopHost (freshSnowfall 0 0)
      = applyResize webglProps desktopHost 0 0 (freshSnowfall 0 0)"
    by (rule handleResize_uninitialised) (simp_all add: freshSnowfall_def)
  have u: "useWebGL webglProps" by (simp add: webglProps_def)
  have d: "density webglProps = 1200" by (simp add: webglProps_def defaultProps_def)
  have i: "initWebGL desktopHost = Some \<lparr>isMobile = False\<rparr>"
    by (simp add: initWebGL_def desktopHost_def)
  have g: "glAvailable desktopHost" by (simp add: desktopHost_def)
  have c: "console (freshSnowfall 0 0) = []" by (simp add: freshSnowfall_def)
  have lens: "length (back_layer (particlesRef (applyResize webglProps desktopHost 0 0
        (freshSnowfall 0 0)))) = 960 \<and>
      length (mid_layer (particlesRef (applyResize webglProps desktopHost 0 0
        (freshSnowfall 0 0)))) = 600 \<and>
      length (front_layer (particlesRef (applyResize webglProps desktopHost 0 0
        (freshSnowfall 0 0)))) = 124"
    using initParticles_lengths [of webglProps 0 0 "mathRandom (freshSnowfall 0 0)"]
    by (simp add: applyResize_particles fresh_refs d)
  have w: "webglStateRef (applyResize webglProps desktopHost 0 0 (freshSnowfall 0 0))
     = \<lparr>back_layer = Some \<lparr>isMobile = False\<rparr>, mid_layer = Some \<lparr>isMobile = False\<rparr>,
        front_layer = Some \<lparr>isMobile = False\<rparr>\<rparr>"
    by (simp add: applyResize_webgl fresh_refs u i)
  have co: "console (applyResize webglProps desktopHost 0 0 (freshSnowfall 0 0))
     = [''Snowfall: Using WebGL renderer'']"
    by (simp add: applyResize_console fresh_refs u g c)
  have ne: "applyResize webglProps desktopHost 0 0 (freshSnowfall 0 0) \<noteq> freshSnowfall 0 0"
  proof
    assume "applyResize webglProps desktopHost 0 0 (freshSnowfall 0 0) = freshSnowfall 0 0"
    then have "console (applyResize webglProps desktopHost 0 0 (freshSnowfall 0 0))
        = console (freshSnowfall 0 0)" by simp
    then show False unfolding co c by simp
  qed
  have fr: "containerRef (freshSnowfall 0 0) = Some (0, 0) \<and>
      particlesRef (freshSnowfall 0 0) = \<lparr>back_layer = [], mid_layer = [], front_layer = []\<rparr> \<and>
      webglStateRef (freshSnowfall 0 0)
        = \<lparr>back_layer = None, mid_layer = None, front_layer = None\<rparr>"
    by (simp add: freshSnowfall_def)
  show ?thesis unfolding hr using lens w co ne fr by simp
qed

section \<open>Tuning of the back layer\<close>

lemma genLoop_valid:
  "valid_rng g \<Longrightarrow> valid_rng (snd (genLoop k P w h rMin rMax sMult g))"
  by (induction k arbitrary: g) (simp_all add: case_prod_beta makeParticle_valid)

lemma generateParticles_valid:
  "valid_rng g \<Longrightarrow> valid_rng (snd (generateParticles P w h c rMin rMax sMult g))"
  by (simp add: generateParticles_def genLoop_valid)

lemma back_layer_initParticles:
  "back_layer (fst (initParticles P w h g))
     = fst (generateParticles P w h \<lfloor>density P * 0.8\<rfloor>
              (minRadius P * 0.5) (maxRadius P * 0.6) 0.6 g)"
  by (simp add: initParticles_def case_prod_beta)

lemma mid_layer_initParticles:
  "mid_layer (fst (initParticles P w h g))
     = fst (generateParticles P w h \<lfloor>density P * 0.5\<rfloor> (minRadius P) (maxRadius P) 1.0
              (snd (generateParticles P w h \<lfloor>density P * 0.8\<rfloor>
                 (minRadius P * 0.5) (maxRadius P * 0.6) 0.6 g)))"
  by (simp add: initParticles_def case_prod_beta)

lemma generated_vy:
  assumes "valid_rng g"
  shows "\<forall>p \<in> set (fst (generateParticles P w h c rMin rMax sMult g)).
           \<exists>v. 0.85 \<le> v \<and> v < 1.15 \<and> vy p = (radius p / 2.5) * sMult * v"
proof -
  let ?Q = "\<lambda>p. \<exists>v. 0.85 \<le> v \<and> v < 1.15 \<and> vy p = (radius p / 2.5) * sMult * v"
  have one: "?Q (fst (makeParticle P w h rMin rMax sMult g'))" if v: "valid_rng g'" for g'
  proof -
    have g2: "0 \<le> g' 2" "g' 2 < 1" using v by (simp_all add: valid_rng_def)
    have "0.85 \<le> g' 2 * (1.15 - 0.85) + 0.85 \<and> g' 2 * (1.15 - 0.85) + 0.85 < 1.15"
      using g2 by simp
    moreover have "vy (fst (makeParticle P w h rMin rMax sMult g'))
        = (radius (fst (makeParticle P w h rMin rMax sMult g')) / 2.5) * sMult
            * (g' 2 * (1.15 - 0.85) + 0.85)"
      by (simp only: makeParticle_vy makeParticle_radius)
    ultimately show ?thesis by blast
  qed
  have "list_all ?Q (fst (generateParticles P w h c rMin rMax sMult g))"
    using one assms by (rule generateParticles_all)
  then show ?thesis by (simp add: list_all_iff)
qed

lemma updateParticles_steps:
  "list_all2 (\<lambda>p q. \<exists>g'. q = fst (updateParticle P w h wMult cw p g'))
     ps (fst (updateParticles P ps w h wMult cw g))"
  by (rule updateParticles_rel_any) blast

lemma loop_back:
  assumes "containerRef S = Some (cw, ch)"
  shows "back_layer (particlesRef (fst (loop P H S)))
     = fst (updateParticles P (back_layer (particlesRef S)) (frameWidth S) (frameHeight S) 0.5
         (frameWind P S) (snd (snd (getDynamicWind (wind P) (windStateRef S) (mathRandom S)))))"
  using assms
  by (simp add: loop_def Let_def case_prod_beta frameWidth_def frameHeight_def frameWind_def)

lemma loop_mid:
  assumes "containerRef S = Some (cw, ch)"
  shows "mid_layer (particlesRef (fst (loop P H S)))
     = fst (updateParticles P (mid_layer (particlesRef S)) (frameWidth S) (frameHeight S) 1.0
         (frameWind P S)
         (snd (updateParticles P (back_layer (particlesRef S)) (frameWidth S) (frameHeight S)
            0.5 (frameWind P S)
            (snd (snd (getDynamicWind (wind P) (windStateRef S) (mathRandom S)))))))"
  using assms
  by (simp add: loop_def Let_def case_prod_beta frameWidth_def frameHeight_def frameWind_def)

lemma loop_back_draw:
  assumes "containerRef S = Some (cw, ch)"
  shows "back_layer (snd (loop P H S))
     = drawLayer P H (back_layer (webglStateRef S)) (back_layer (canvasRefs S))
         (back_layer (particlesRef (fst (loop P H S)))) 0.3"
  using assms by (simp add: loop_def Let_def case_prod_beta)

lemma drawLayer_canvas:
  "\<not> useWebGL P \<Longrightarrow> canvas \<noteq> None \<Longrightarrow> context2d H \<Longrightarrow>
   drawLayer P H webgl canvas ps layerOpacity
     = DrawCanvas (map (\<lambda>q. max 0 (min 1 (opacity q * layerOpacity * globalOpacity P))) ps)"
  by (simp add: drawLayer_def drawParticlesCanvas_def)

lemma drawLayer_webgl:
  "useWebGL P \<Longrightarrow> webgl = Some st \<Longrightarrow> ps \<noteq> [] \<Longrightarrow>
   drawLayer P H webgl canvas ps layerOpacity
     = RenderWebGL (map (\<lambda>q. min 1.0 (opacity q * layerOpacity * globalOpacity P
                                          * opacityBoost st q)) ps)"
  by (simp add: drawLayer_def renderWebGL_def)

lemma hd_generateParticles:
  assumes "0 < c"
  shows "hd (fst (generateParticles P w h c rMin rMax sMult g))
           = fst (makeParticle P w h rMin rMax sMult g)"
proof -
  obtain k where "nat c = Suc k" using assms by (cases "nat c") auto
  then show ?thesis by (simp add: generateParticles_def case_prod_beta)
qed

lemma frameWind_oneFlake:
  "frameWind defaultProps oneFlakeSnowfall
     = 0.2 * (1 + sin (0.016 * 0.05) * 0.7 + sin (0.016 * 0.15) * 0.3 + sin (0.016 * 0.8) * 0.1)"
  by (simp add: frameWind_def getDynamicWind_def startGust_def gustFactor_def Math_random_def
      Let_def oneFlakeSnowfall_def freshSnowfall_def initialWind_def defaultProps_def)

lemma sin_small_nonneg:
  assumes "0 \<le> (t::real)" and "t \<le> 1"
  shows "0 \<le> sin t"
proof -
  have "t \<le> pi" using assms(2) pi_ge_two by linarith
  with assms(1) show ?thesis by (rule sin_ge_zero)
qed

lemma frameWind_oneFlake_bounds:
  "0.2 \<le> frameWind defaultProps oneFlakeSnowfall \<and> frameWind defaultProps oneFlakeSnowfall \<le> 0.42"
proof -
  define s1 where "s1 = sin (0.016 * 0.05 :: real)"
  define s2 where "s2 = sin (0.016 * 0.15 :: real)"
  define s3 where "s3 = sin (0.016 * 0.8 :: real)"
  have lo: "0 \<le> s1" "0 \<le> s2" "0 \<le> s3"
    unfolding s1_def s2_def s3_def by (rule sin_small_nonneg; simp)+
  have hi: "s1 \<le> 1" "s2 \<le> 1" "s3 \<le> 1"
    unfolding s1_def s2_def s3_def by simp_all
  have "frameWind defaultProps oneFlakeSnowfall = 0.2 * (1 + s1 * 0.7 + s2 * 0.3 + s3 * 0.1)"
    unfolding frameWind_oneFlake s1_def s2_def s3_def ..
  then show ?thesis using lo hi by simp
qed

text \<open>
  C5, as the code has it. The back layer has \<open>floor(density * 0.8)\<close> particles (the mid
  layer \<open>floor(density * 0.5)\<close>); each back particle is created with
  \<open>vy = (radius / 2.5) * 0.6 * v\<close> for a variance \<open>v\<close> in \<open>[0.85, 1.15)\<close> (the mid layer
  with 1.0 in place of 0.6); in every frame of a mounted instance each back particle is
  advanced by the callback with wind multiplier 0.5 on the frame's wind (the mid layer
  with 1.0); and the back layer is drawn with layer opacity 0.3, on the canvas backend as
  well as on the WebGL backend (which draws when there is a particle).
\<close>

theorem C5_back_layer_tuning:
  assumes "valid_rng g" and "containerRef S = Some (cw, ch)"
  shows "length (back_layer (fst (initParticles P w h g))) = nat \<lfloor>density P * 0.8\<rfloor> \<and>
         length (mid_layer (fst (initParticles P w h g))) = nat \<lfloor>density P * 0.5\<rfloor> \<and>
         (\<forall>p \<in> set (back_layer (fst (initParticles P w h g))).
            \<exists>v. 0.85 \<le> v \<and> v < 1.15 \<and> vy p = (radius p / 2.5) * 0.6 * v) \<and>
         (\<forall>p \<in> set (mid_layer (fst (initParticles P w h g))).
            \<exists>v. 0.85 \<le> v \<and> v < 1.15 \<and> vy p = (radius p / 2.5) * 1.0 * v) \<and>
         list_all2
           (\<lambda>p q. \<exists>g'. q = fst (updateParticle P (frameWidth S) (frameHeight S) 0.5
                                (frameWind P S) p g'))
           (back_layer (particlesRef S)) (back_layer (particlesRef (fst (loop P H S)))) \<and>
         list_all2
           (\<lambda>p q. \<exists>g'. q = fst (updateParticle P (frameWidth S) (frameHeight S) 1.0
                                (frameWind P S) p g'))
           (mid_layer (particlesRef S)) (mid_layer (particlesRef (fst (loop P H S)))) \<and>
         (\<not> useWebGL P \<and> back_layer (canvasRefs S) \<noteq> None \<and> context2d H \<longrightarrow>
            back_layer (snd (loop P H S))
              = DrawCanvas (map (\<lambda>q. max 0 (min 1 (opacity q * 0.3 * globalOpacity P)))
                  (back_layer (particlesRef (fst (loop P H S)))))) \<and>
         (\<forall>st. useWebGL P \<and> back_layer (webglStateRef S) = Some st \<and>
              back_layer (particlesRef (fst (loop P H S))) \<noteq> [] \<longrightarrow>
            back_layer (snd (loop P H S))
              = RenderWebGL (map (\<lambda>q. min 1.0 (opacity q * 0.3 * globalOpacity P
                                                  * opacityBoost st q))
                  (back_layer (particlesRef (fst (loop P H S))))))"
proof -
  have counts: "length (back_layer (fst (initParticles P w h g))) = nat \<lfloor>density P * 0.8\<rfloor> \<and>
         length (mid_layer (fst (initParticles P w h g))) = nat \<lfloor>density P * 0.5\<rfloor>"
    using initParticles_lengths [of P w h g] by simp
  have vb: "\<forall>p \<in> set (back_layer (fst (initParticles P w h g))).
            \<exists>v. 0.85 \<le> v \<and> v < 1.15 \<and> vy p = (radius p / 2.5) * 0.6 * v"
    unfolding back_layer_initParticles using assms(1) by (rule generated_vy)
  have "valid_rng (snd (generateParticles P w h \<lfloor>density P * 0.8\<rfloor>
                 (minRadius P * 0.5) (maxRadius P * 0.6) 0.6 g))"
    using assms(1) by (rule generateParticles_valid)
  then have vm: "\<forall>p \<in> set (mid_layer (fst (initParticles P w h g))).
            \<exists>v. 0.85 \<le> v \<and> v < 1.15 \<and> vy p = (radius p / 2.5) * 1.0 * v"
    unfolding mid_layer_initParticles by (rule generated_vy)
  have ub: "list_all2
           (\<lambda>p q. \<exists>g'. q = fst (updateParticle P (frameWidth S) (frameHeight S) 0.5
                                (frameWind P S) p g'))
           (back_layer (particlesRef S)) (back_layer (particlesRef (fst (loop P H S))))"
    unfolding loop_back [OF assms(2)] by (rule updateParticles_steps)
  have um: "list_all2
           (\<lambda>p q. \<exists>g'. q = fst (updateParticle P (frameWidth S) (frameHeight S) 1.0
                                (frameWind P S) p g'))
           (mid_layer (particlesRef S)) (mid_layer (particlesRef (fst (loop P H S))))"
    unfolding loop_mid [OF assms(2)] by (rule updateParticles_steps)
  have dc: "\<not> useWebGL P \<and> back_layer (canvasRefs S) \<noteq> None \<and> context2d H \<longrightarrow>
            back_layer (snd (loop P H S))
              = DrawCanvas (map (\<lambda>q. max 0 (min 1 (opacity q * 0.3 * globalOpacity P)))
                  (back_layer (particlesRef (fst (loop P H S)))))"
    unfolding loop_back_draw [OF assms(2)] by (simp add: drawLayer_canvas)
  have dw: "\<forall>st. useWebGL P \<and> back_layer (webglStateRef S) = Some st \<and>
              back_layer (particlesRef (fst (loop P H S))) \<noteq> [] \<longrightarrow>
            back_layer (snd (loop P H S))
              = RenderWebGL (map (\<lambda>q. min 1.0 (opacity q * 0.3 * globalOpacity P
                                                  * opacityBoost st q))
                  (back_layer (particlesRef (fst (loop P H S)))))"
    unfolding loop_back_draw [OF assms(2)] by (simp add: drawLayer_webgl)
  from counts vb vm ub um dc dw show ?thesis by blast
qed

text \<open>The default props and an 800 by 600 instance with one back particle, drawn on canvas.\<close>

theorem C5_witness:
  "valid_rng (\<lambda>n. 1 / 2) \<and> containerRef oneFlakeSnowfall = Some (800, 600) \<and>
   \<not> useWebGL defaultProps \<and> back_layer (canvasRefs oneFlakeSnowfall) \<noteq> None \<and>
   context2d desktopHost \<and>
   length (back_layer (fst (initParticles defaultProps 800 600 (\<lambda>n. 1 / 2)))) = 960 \<and>
   length (mid_layer (fst (initParticles defaultProps 800 600 (\<lambda>n. 1 / 2)))) = 600 \<and>
   list_all (\<lambda>p. \<exists>v. 0.85 \<le> v \<and> v < 1.15 \<and> vy p = (radius p / 2.5) * 0.6 * v)
     (back_layer (fst (initParticles defaultProps 800 600 (\<lambda>n. 1 / 2)))) \<and>
   list_all2
     (\<lambda>p q. \<exists>g'. q = fst (updateParticle defaultProps 800 600 0.5
                          (frameWind defaultProps oneFlakeSnowfall) p g'))
     [stillParticle]
     (back_layer (particlesRef (fst (loop defaultProps desktopHost oneFlakeSnowfall)))) \<and>
   back_layer (snd (loop defaultProps desktopHost oneFlakeSnowfall))
     = DrawCanvas (map (\<lambda>q. max 0 (min 1 (opacity q * 0.3 * globalOpacity defaultProps)))
         (back_layer (particlesRef (fst (loop defaultProps desktopHost oneFlakeSnowfall)))))"
proof -
  have h1: "valid_rng (\<lambda>n. 1 / 2)" by (simp add: valid_rng_def)
  have h2: "containerRef oneFlakeSnowfall = Some (800, 600)"
    by (simp add: oneFlakeSnowfall_def freshSnowfall_def)
  have h3: "\<not> useWebGL defaultProps \<and> back_layer (canvasRefs oneFlakeSnowfall) \<noteq> None \<and>
      context2d desktopHost"
    by (simp add: defaultProps_def oneFlakeSnowfall_def freshSnowfall_def desktopHost_def)
  have d: "density defaultProps = 1200" by (simp add: defaultProps_def)
  have fw: "frameWidth oneFlakeSnowfall = 800" "frameHeight oneFlakeSnowfall = 600"
    by (simp_all add: frameWidth_def frameHeight_def oneFlakeSnowfall_def freshSnowfall_def)
  have bl: "back_layer (particlesRef oneFlakeSnowfall) = [stillParticle]"
    by (simp add: oneFlakeSnowfall_def freshSnowfall_def)
  note inst = C5_back_layer_tuning [OF h1 h2, of defaultProps 800 600 desktopHost]
  have a: "length (back_layer (fst (initParticles defaultProps 800 600 (\<lambda>n. 1 / 2)))) = 960 \<and>
      length (mid_layer (fst (initParticles defaultProps 800 600 (\<lambda>n. 1 / 2)))) = 600"
    using inst by (simp add: d)
  have b: "list_all (\<lambda>p. \<exists>v. 0.85 \<le> v \<and> v < 1.15 \<and> vy p = (radius p / 2.5) * 0.6 * v)
     (back_layer (fst (initParticles defaultProps 800 600 (\<lambda>n. 1 / 2))))"
    unfolding list_all_iff using inst by blast
  have c: "list_all2
     (\<lambda>p q. \<exists>g'. q = fst (updateParticle defaultProps 800 600 0.5
                          (frameWind defaultProps oneFlakeSnowfall) p g'))
     [stillParticle]
     (back_layer (particlesRef (fst (loop defaultProps desktopHost oneFlakeSnowfall))))"
    using inst unfolding fw bl by blast
  have e: "back_layer (snd (loop defaultProps desktopHost oneFlakeSnowfall))
     = DrawCanvas (map (\<lambda>q. max 0 (min 1 (opacity q * 0.3 * globalOpacity defaultProps)))
         (back_layer (particlesRef (fst (loop defaultProps desktopHost oneFlakeSnowfall)))))"
    using inst h3 by blast
  from h1 h2 h3 a b c e show ?thesis by blast
qed

text \<open>
  C5 as stated fails on three of its four numbers. With the default density the back
  layer has 960 particles, not \<open>floor(1200 * 0.6) = 720\<close>. Its first particle, of radius
  0.74, is created with \<open>vy = (0.74 / 2.5) * 0.6\<close>, more than a multiplier of 0.5 gives
  with any variance below 1.15. And a frame moves the back particle that has no velocity
  and no sway by 0.5 times the frame's wind, which is not 0.6 times that wind.
\<close>

theorem C5_counterexample:
  "length (back_layer (fst (initParticles defaultProps 800 600 (\<lambda>n. 1 / 2)))) = 960 \<and>
   nat \<lfloor>density defaultProps * 0.6\<rfloor> = 720 \<and>
   radius (hd (back_layer (fst (initParticles defaultProps 800 600 (\<lambda>n. 1 / 2))))) = 0.74 \<and>
   vy (hd (back_layer (fst (initParticles defaultProps 800 600 (\<lambda>n. 1 / 2)))))
     = (0.74 / 2.5) * 0.6 * 1.0 \<and>
   (0.74 / 2.5) * 0.5 * 1.15 < (0.74 / 2.5) * 0.6 * (1.0 :: real) \<and>
   map x (back_layer (particlesRef (fst (loop defaultProps desktopHost oneFlakeSnowfall))))
     = [x stillParticle + 0.5 * frameWind defaultProps oneFlakeSnowfall] \<and>
   x stillParticle + 0.5 * frameWind defaultProps oneFlakeSnowfall
     \<noteq> x stillParticle + 0.6 * frameWind defaultProps oneFlakeSnowfall"
proof -
  have d: "density defaultProps = 1200" "minRadius defaultProps = 0.2"
      "maxRadius defaultProps = 2.3"
    by (simp_all add: defaultProps_def)
  have len: "length (back_layer (fst (initParticles defaultProps 800 600 (\<lambda>n. 1 / 2)))) = 960"
    using initParticles_lengths [of defaultProps 800 600 "\<lambda>n. 1 / 2"] by (simp add: d)
  have fl: "nat \<lfloor>density defaultProps * 0.6\<rfloor> = 720" by (simp add: d)
  have hd: "hd (back_layer (fst (initParticles defaultProps 800 600 (\<lambda>n. 1 / 2))))
      = fst (makeParticle defaultProps 800 600 (0.2 * 0.5) (2.3 * 0.6) 0.6 (\<lambda>n. 1 / 2))"
    unfolding back_layer_initParticles d by (rule hd_generateParticles) simp
  have rad: "radius (hd (back_layer (fst (initParticles defaultProps 800 600 (\<lambda>n. 1 / 2)))))
      = 0.74"
    unfolding hd makeParticle_radius by simp
  have v: "vy (hd (back_layer (fst (initParticles defaultProps 800 600 (\<lambda>n. 1 / 2)))))
     = (0.74 / 2.5) * 0.6 * 1.0"
    unfolding hd makeParticle_vy by simp
  have c: "containerRef oneFlakeSnowfall = Some (800, 600)"
    by (simp add: oneFlakeSnowfall_def freshSnowfall_def)
  have fw: "frameWidth oneFlakeSnowfall = 800" "frameHeight oneFlakeSnowfall = 600"
    by (simp_all add: frameWidth_def frameHeight_def oneFlakeSnowfall_def freshSnowfall_def)
  have bl: "back_layer (particlesRef oneFlakeSnowfall) = [stillParticle]"
    by (simp add: oneFlakeSnowfall_def freshSnowfall_def)
  define cw where "cw = frameWind defaultProps oneFlakeSnowfall"
  have cwb: "0.2 \<le> cw" "cw \<le> 0.42"
    using frameWind_oneFlake_bounds by (simp_all add: cw_def)
  have sw: "sway stillParticle = 0" by (rule sway_zero) (simp add: stillParticle_def)
  have mx: "movedX 0.5 cw stillParticle = 400 + 0.5 * cw"
    by (simp add: movedX_def sw) (simp add: stillParticle_def)
  have my: "movedY defaultProps stillParticle = 300"
    by (simp add: movedY_def stillParticle_def)
  have r1: "radius stillParticle = 1" and x0: "x stillParticle = 400"
    by (simp_all add: stillParticle_def)
  have xs: "x (fst (updateParticle defaultProps 800 600 0.5 cw stillParticle g'))
      = 400 + 0.5 * cw" for g'
    unfolding updateParticle_x mx my r1 Let_def using cwb by simp
  have "map x (back_layer (particlesRef (fst (loop defaultProps desktopHost oneFlakeSnowfall))))
     = [400 + 0.5 * cw]"
    unfolding loop_back [OF c] fw bl cw_def [symmetric]
    using xs by (simp add: case_prod_beta)
  then have lx: "map x (back_layer (particlesRef (fst (loop defaultProps desktopHost
        oneFlakeSnowfall)))) = [x stillParticle + 0.5 * frameWind defaultProps oneFlakeSnowfall]"
    by (simp add: x0 cw_def)
  have ne: "x stillParticle + 0.5 * frameWind defaultProps oneFlakeSnowfall
     \<noteq> x stillParticle + 0.6 * frameWind defaultProps oneFlakeSnowfall"
    using cwb by (simp add: cw_def)
  have ar: "(0.74 / 2.5) * 0.5 * 1.15 < (0.74 / 2.5) * 0.6 * (1.0 :: real)" by simp
  from len fl rad v ar lx ne show ?thesis by blast
qed

end
